theory Spec2Isabelle
  imports Complex_Main "HOL-Library.Multiset" "HOL-Library.Product_Lexorder"
begin

section \<open>JavaScript strings\<close>

text \<open>
  Strings are lists of characters.  The texts the pricing engine sends are ASCII, and the
  model of the string built-ins below is the ASCII fragment of the JavaScript semantics:
  \<open>toUpperCase\<close> maps \<open>a\<close>..\<open>z\<close> to \<open>A\<close>..\<open>Z\<close> and leaves every other
  character alone, \<open>\s\<close> is the six ASCII white-space characters and \<open>\d\<close> the ten
  ASCII digits.
\<close>

definition upperChar :: "char \<Rightarrow> char" where
  "upperChar c =
     (case map_of (zip ''abcdefghijklmnopqrstuvwxyz'' ''ABCDEFGHIJKLMNOPQRSTUVWXYZ'') c of
        Some u \<Rightarrow> u
      | None \<Rightarrow> c)"

definition toUpperCase :: "string \<Rightarrow> string" where
  "toUpperCase s = map upperChar s"

fun startsWith :: "string \<Rightarrow> string \<Rightarrow> bool" where
  "startsWith s [] = True"
| "startsWith [] (p # ps) = False"
| "startsWith (c # cs) (p # ps) = (c = p \<and> startsWith cs ps)"

text \<open>\<open>includesStr s p\<close> is \<open>s.includes(p)\<close>: the pattern occurs at some position.\<close>

fun includesStr :: "string \<Rightarrow> string \<Rightarrow> bool" where
  "includesStr [] p = startsWith [] p"
| "includesStr (c # cs) p = (startsWith (c # cs) p \<or> includesStr cs p)"

definition isDigit :: "char \<Rightarrow> bool" where
  "isDigit c = (c \<in> set ''0123456789'')"

definition isSpace :: "char \<Rightarrow> bool" where
  "isSpace c = (c \<in> set [CHR '' '', CHR 0x09, CHR 0x0A, CHR 0x0B, CHR 0x0C, CHR 0x0D])"

section \<open>Prepayment-penalty classification\<close>

text \<open>
  The regular expression \<open>/\d\s*YR\s*PPP/i\<close>.  After the digit every step is forced
  (white space is skipped greedily and the next literal does not start with white
  space), so a match at a position is decided by one left-to-right pass.
\<close>

definition matchYrPPPAt :: "string \<Rightarrow> bool" where
  "matchYrPPPAt s =
     (case s of
        [] \<Rightarrow> False
      | c # cs \<Rightarrow>
          isDigit c \<and>
          (let r = dropWhile isSpace cs in
             startsWith (toUpperCase (take 2 r)) ''YR'' \<and>
             startsWith (toUpperCase (take 3 (dropWhile isSpace (drop 2 r)))) ''PPP''))"

fun testYrPPP :: "string \<Rightarrow> bool" where
  "testYrPPP [] = matchYrPPPAt []"
| "testYrPPP (c # cs) = (matchYrPPPAt (c # cs) \<or> testYrPPP cs)"

text \<open>\<open>hasPPPInName\<close> of the pricing logic (and of the form component, which repeats it).\<close>

definition hasPPPInName :: "string \<Rightarrow> bool" where
  "hasPPPInName t =
     (let upper = toUpperCase t in
        if includesStr upper ''0MO PPP'' \<or> includesStr upper ''0 YR PPP'' \<or> includesStr upper ''0YR PPP''
        then False
        else includesStr upper '' PPP'' \<or> includesStr upper ''YR PPP'' \<or> testYrPPP upper)"

text \<open>\<open>hasPPP\<close> of the request handler: the same test behind a guard for the empty text.\<close>

definition hasPPP :: "string \<Rightarrow> bool" where
  "hasPPP t =
     (if t = [] then False
      else
        let upper = toUpperCase t in
          if includesStr upper ''0MO PPP'' \<or> includesStr upper ''0 YR PPP'' \<or> includesStr upper ''0YR PPP''
          then False
          else includesStr upper '' PPP'' \<or> includesStr upper ''YR PPP'' \<or> testYrPPP upper)"

section \<open>Data model\<close>

text \<open>
  Numbers are modelled as exact rationals: every number the pipeline handles is a finite
  decimal read from the engine's payload or from the form, and \<open>NaN\<close> is replaced by a
  default where it is read (\<open>parseFloat(..) || 0\<close>).  An absent string field is the
  empty string, which the code treats like \<open>undefined\<close> wherever it tests one
  (\<open>x || fallback\<close>, \<open>!x\<close>).  An optional array is an \<open>option\<close>.
\<close>

record Adjustment =
  adj_description :: string
  adj_amount :: rat
  adj_rateAdj :: rat

record RateOption =
  opt_rate :: rat
  opt_points :: rat
  opt_apr :: rat
  opt_payment :: rat
  opt_description :: string
  opt_investor :: string
  opt_status :: string
  opt_bestPrice :: bool
  opt_totalClosingCost :: rat
  opt_cashToClose :: rat
  opt_adjustments :: "Adjustment list option"

record Program =
  prog_name :: string
  prog_programName :: string
  prog_status :: string
  prog_term :: int
  prog_finMethod :: string
  prog_loanType :: string
  prog_parRate :: rat
  prog_parPoints :: rat
  prog_investor :: string
  prog_lockDays :: int
  prog_rate :: rat
  prog_apr :: rat
  prog_points :: rat
  prog_payment :: rat
  prog_description :: string
  prog_investorName :: string
  prog_totalClosingCost :: rat
  prog_cashToClose :: rat
  prog_rateOptions :: "RateOption list"
  prog_adjustments :: "Adjustment list option"

record TargetPricingOption =
  tp_rate :: rat
  tp_points :: rat
  tp_apr :: rat
  tp_price :: rat
  tp_payment :: rat
  tp_programName :: string
  tp_adjustments :: "Adjustment list"

text \<open>\<open>a || b\<close> on strings: the empty string is falsy.\<close>

definition orElse :: "string \<Rightarrow> string \<Rightarrow> string" where
  "orElse a b = (if a = [] then b else a)"

text \<open>\<open>safeNumber\<close> returns a number that is not \<open>NaN\<close> as it is.\<close>

definition safeNumber :: "rat \<Rightarrow> rat" where
  "safeNumber v = v"

section \<open>Target-pricing selector\<close>

definition isPPPAllowed :: "string \<Rightarrow> bool" where
  "isPPPAllowed occupancyType = (occupancyType = ''investment'')"

text \<open>
  \<open>getPPPPattern\<close>: the lookup in the six-entry table, with its default.  (Keys that a
  JavaScript object inherits, such as \<open>constructor\<close>, are not prepay periods of the
  form and are not modelled.)
\<close>

definition getPPPPattern :: "string \<Rightarrow> string" where
  "getPPPPattern prepayPeriod =
     (case map_of
        [(''5year'', ''5 YR PPP''), (''4year'', ''4 YR PPP''), (''3year'', ''3 YR PPP''),
         (''2year'', ''2 YR PPP''), (''1year'', ''1 YR PPP''), (''0year'', ''0 YR PPP'')]
        prepayPeriod of
        Some v \<Rightarrow> orElse v ''3 YR PPP''
      | None \<Rightarrow> ''3 YR PPP'')"

text \<open>\<open>s.replace(pat, rep)\<close> with a string pattern: the first occurrence only.\<close>

fun replaceFirst :: "string \<Rightarrow> string \<Rightarrow> string \<Rightarrow> string" where
  "replaceFirst pat rep [] = (if pat = [] then rep else [])"
| "replaceFirst pat rep (c # cs) =
     (if startsWith (c # cs) pat then rep @ drop (length pat) (c # cs)
      else c # replaceFirst pat rep cs)"

text \<open>\<open>closestDistance\<close> starts at \<open>Infinity\<close>.\<close>

datatype distance = Infinity | Finite rat

fun lessThanDistance :: "rat \<Rightarrow> distance \<Rightarrow> bool" where
  "lessThanDistance d Infinity = True"
| "lessThanDistance d (Finite e) = (d < e)"

type_synonym selectorState = "TargetPricingOption option \<times> distance"

text \<open>The object literal assigned to \<open>targetOption\<close>.\<close>

definition toTarget :: "string \<Rightarrow> RateOption \<Rightarrow> TargetPricingOption" where
  "toTarget programName opt =
     \<lparr> tp_rate = safeNumber (opt_rate opt),
       tp_points = safeNumber (opt_points opt),
       tp_apr = safeNumber (opt_apr opt),
       tp_price = 100 - safeNumber (opt_points opt),
       tp_payment = safeNumber (opt_payment opt),
       tp_programName = orElse (opt_description opt) programName,
       tp_adjustments = (case opt_adjustments opt of Some a \<Rightarrow> a | None \<Rightarrow> []) \<rparr>"

text \<open>
  The price part of both passes: an option in the band replaces the target when it is
  strictly closer to 100.
\<close>

definition updateTarget :: "string \<Rightarrow> RateOption \<Rightarrow> selectorState \<Rightarrow> selectorState" where
  "updateTarget programName opt st =
     (let points = safeNumber (opt_points opt);
          price = 100 - points
      in if price \<ge> 99 \<and> price \<le> 101 then
           (let distance = \<bar>price - 100\<bar>
            in if lessThanDistance distance (snd st)
               then (Some (toTarget programName opt), Finite distance)
               else st)
         else st)"

definition firstPassOption ::
  "bool \<Rightarrow> string \<Rightarrow> string \<Rightarrow> RateOption \<Rightarrow> selectorState \<Rightarrow> selectorState" where
  "firstPassOption pppAllowed selectedPPP programName opt st =
     (let desc = toUpperCase (orElse (opt_description opt) programName);
          hasPPP = hasPPPInName desc
      in if \<not> pppAllowed \<and> hasPPP then st
         else if pppAllowed \<and>
                 \<not> (includesStr desc (toUpperCase selectedPPP) \<or>
                    includesStr desc (toUpperCase (replaceFirst '' YR '' ''YR '' selectedPPP)))
         then st
         else updateTarget programName opt st)"

definition fallbackOption ::
  "bool \<Rightarrow> string \<Rightarrow> RateOption \<Rightarrow> selectorState \<Rightarrow> selectorState" where
  "fallbackOption pppAllowed programName opt st =
     (let desc = toUpperCase (orElse (opt_description opt) programName);
          hasPPP = hasPPPInName desc
      in if \<not> pppAllowed \<and> hasPPP then st
         else updateTarget programName opt st)"

text \<open>\<open>programs.forEach(program => program.rateOptions.forEach(opt => ...))\<close>.\<close>

definition forEachOption ::
  "(string \<Rightarrow> RateOption \<Rightarrow> selectorState \<Rightarrow> selectorState) \<Rightarrow> Program list \<Rightarrow>
   selectorState \<Rightarrow> selectorState" where
  "forEachOption body programs st =
     fold (\<lambda>program. fold (body (orElse (prog_name program) ''Unknown'')) (prog_rateOptions program))
       programs st"

definition getTargetPricing :: "Program list \<Rightarrow> string \<Rightarrow> string \<Rightarrow> TargetPricingOption option" where
  "getTargetPricing programs occupancyType prepayPeriod =
     (let pppAllowed = isPPPAllowed occupancyType;
          selectedPPP = (if pppAllowed then getPPPPattern prepayPeriod else []);
          st1 = forEachOption (firstPassOption pppAllowed selectedPPP) programs (None, Infinity)
      in if fst st1 = None
         then fst (forEachOption (fallbackOption pppAllowed) programs st1)
         else fst st1)"

text \<open>
  The form component's own copy of the selector: it reads the occupancy type from the
  form, and for an investment property its first pass asks for a five-year penalty.
\<close>

definition appFirstPassOption ::
  "bool \<Rightarrow> string \<Rightarrow> RateOption \<Rightarrow> selectorState \<Rightarrow> selectorState" where
  "appFirstPassOption pppAllowed programName opt st =
     (let desc = toUpperCase (orElse (opt_description opt) programName);
          hasPPP = hasPPPInName desc
      in if \<not> pppAllowed \<and> hasPPP then st
         else if pppAllowed \<and>
                 \<not> (includesStr desc ''5 YR PPP'' \<or> includesStr desc ''5YR PPP'' \<or>
                    includesStr desc ''60MO PPP'')
         then st
         else updateTarget programName opt st)"

definition appGetTargetPricing :: "Program list \<Rightarrow> string \<Rightarrow> TargetPricingOption option" where
  "appGetTargetPricing programs occupancyType =
     (let pppAllowed = (occupancyType = ''investment'');
          st1 = forEachOption (appFirstPassOption pppAllowed) programs (None, Infinity)
      in if fst st1 = None
         then fst (forEachOption (fallbackOption pppAllowed) programs st1)
         else fst st1)"

subsection \<open>What the selector is measured against\<close>

definition distanceToPar :: "TargetPricingOption \<Rightarrow> rat" where
  "distanceToPar t = \<bar>tp_price t - 100\<bar>"

text \<open>The implied price \<open>100 - points\<close> lies in the closed band from 99 to 101.\<close>

definition inBand :: "RateOption \<Rightarrow> bool" where
  "inBand opt = (99 \<le> 100 - opt_points opt \<and> 100 - opt_points opt \<le> 101)"

definition programLabel :: "Program \<Rightarrow> string" where
  "programLabel program = orElse (prog_name program) ''Unknown''"

text \<open>The selector's own penalty test of an option: \<open>hasPPPInName(desc)\<close>.\<close>

definition optionHasPPP :: "string \<Rightarrow> RateOption \<Rightarrow> bool" where
  "optionHasPPP programName opt =
     hasPPPInName (toUpperCase (orElse (opt_description opt) programName))"

text \<open>
  The options of the band that pass a test, as target options, in scan order: program
  by program, and inside a program rate option by rate option.
\<close>

definition scanTargets ::
  "(string \<Rightarrow> RateOption \<Rightarrow> bool) \<Rightarrow> Program list \<Rightarrow> TargetPricingOption list" where
  "scanTargets keep programs =
     concat (map (\<lambda>p. map (toTarget (programLabel p))
                         (filter (\<lambda>opt. keep (programLabel p) opt \<and> inBand opt)
                            (prog_rateOptions p)))
                 programs)"

definition bandTargets :: "Program list \<Rightarrow> TargetPricingOption list" where
  "bandTargets programs = scanTargets (\<lambda>n opt. True) programs"

text \<open>
  \<open>firstClosestToPar cs r\<close>: the result \<open>r\<close> is nothing when there is no candidate;
  otherwise it is a candidate whose price is at least as close to 100 as every
  candidate's, and strictly closer than every candidate before it.
\<close>

definition firstClosestToPar ::
  "TargetPricingOption list \<Rightarrow> TargetPricingOption option \<Rightarrow> bool" where
  "firstClosestToPar cs r =
     (case r of
        None \<Rightarrow> cs = []
      | Some t \<Rightarrow>
          (\<exists>i<length cs. cs ! i = t \<and>
             (\<forall>j<length cs. distanceToPar t \<le> distanceToPar (cs ! j)) \<and>
             (\<forall>j<i. distanceToPar t < distanceToPar (cs ! j))))"

definition stepCloser :: "TargetPricingOption \<Rightarrow> selectorState \<Rightarrow> selectorState" where
  "stepCloser t st =
     (if lessThanDistance (distanceToPar t) (snd st)
      then (Some t, Finite (distanceToPar t)) else st)"

section \<open>Eligibility and penalty filter\<close>

text \<open>
  The callbacks of both filters assign to \<open>p.rateOptions\<close>, so a program object is
  changed in place whether it is kept or not.  A callback is modelled as a function
  that returns the verdict together with the program as the callback leaves it.
\<close>

definition handlerFilterStep :: "Program \<Rightarrow> bool \<times> Program" where
  "handlerFilterStep p =
     (if hasPPP (prog_programName p) \<or> hasPPP (prog_name p) then (False, p)
      else if hasPPP (prog_description p) then (False, p)
      else
        (let p' = p\<lparr>prog_rateOptions :=
                      filter (\<lambda>ro. \<not> hasPPP (opt_description ro)) (prog_rateOptions p)\<rparr>
         in (length (prog_rateOptions p') > 0, p')))"

text \<open>
  The handler's filter: the pair of \<open>eligiblePrograms\<close> and of \<open>result.programs\<close> as
  the filter leaves it (the same objects, so the in-place changes show in both).
\<close>

definition handlerFilter :: "bool \<Rightarrow> Program list \<Rightarrow> Program list \<times> Program list" where
  "handlerFilter isInvestment programs =
     (if isInvestment
      then (filter (\<lambda>p. prog_status p = ''Eligible'') programs, programs)
      else
        (let stepped =
               map (\<lambda>p. if prog_status p = ''Eligible'' then handlerFilterStep p else (False, p))
                 programs
         in (map snd (filter fst stepped), map snd stepped)))"

definition occupancyFilterStep :: "Program \<Rightarrow> bool \<times> Program" where
  "occupancyFilterStep program =
     (let name = orElse (prog_name program) []
      in if hasPPPInName name then (False, program)
         else
           (let p' = program\<lparr>prog_rateOptions :=
                        filter (\<lambda>opt. \<not> hasPPPInName (orElse (opt_description opt) []))
                          (prog_rateOptions program)\<rparr>
            in (length (prog_rateOptions p') > 0, p')))"

definition filterProgramsByOccupancy :: "Program list \<Rightarrow> string \<Rightarrow> Program list" where
  "filterProgramsByOccupancy programs occupancyType =
     (if occupancyType = ''investment'' then programs
      else map snd (filter fst (map occupancyFilterStep programs)))"

section \<open>Adjustment sanitizer and rewriter\<close>

record FormData =
  fd_documentationType :: string
  fd_loanType :: string
  fd_occupancyType :: string
  fd_loanPurpose :: string
  fd_dscrValue :: "rat option"
  fd_dscrRatio :: string

text \<open>
  \<open>dscrValue\<close> is the number the form sends (or absent); \<open>parseFloat\<close> of a number is
  that number.  \<open>x.toFixed(3)\<close> for \<open>x\<close> below \<open>10^21\<close>: the integer \<open>n\<close> with
  \<open>n / 1000\<close> nearest to \<open>x\<close> (the larger one on a tie), written with at least four
  digits and a point before the last three.
\<close>

definition digitChar :: "nat \<Rightarrow> char" where
  "digitChar d = ''0123456789'' ! (d mod 10)"

fun decimalDigits :: "nat \<Rightarrow> nat \<Rightarrow> string" where
  "decimalDigits 0 n = []"
| "decimalDigits (Suc k) n =
     (if n < 10 then [digitChar n] else decimalDigits k (n div 10) @ [digitChar n])"

text \<open>\<open>natToString n\<close>: a number below \<open>10^(n+1)\<close> has at most \<open>n + 1\<close> digits.\<close>

definition natToString :: "nat \<Rightarrow> string" where
  "natToString n = decimalDigits (Suc n) n"

definition toFixed3 :: "rat \<Rightarrow> string" where
  "toFixed3 x =
     (let a = \<bar>x\<bar>;
          n = nat \<lfloor>a * 1000 + 1 / 2\<rfloor>;
          m = natToString n;
          m' = replicate (4 - length m) (CHR ''0'') @ m;
          k = length m'
      in (if x < 0 then ''-'' else []) @ take (k - 3) m' @ ''.'' @ drop (k - 3) m')"

definition isDSCRRequest :: "FormData \<Rightarrow> bool" where
  "isDSCRRequest formData =
     (let docType = orElse (fd_documentationType formData) ''fullDoc'';
          loanType = orElse (fd_loanType formData) ''nonqm''
      in docType = ''dscr'' \<or> loanType = ''dscr'')"

definition actualDSCRValue :: "FormData \<Rightarrow> string option" where
  "actualDSCRValue formData =
     (case fd_dscrValue formData of
        Some v \<Rightarrow> if isDSCRRequest formData \<and> v \<noteq> 0 then Some (toFixed3 v) else None
      | None \<Rightarrow> None)"

definition actualDSCRTier :: "FormData \<Rightarrow> string option" where
  "actualDSCRTier formData =
     (if isDSCRRequest formData \<and> fd_dscrRatio formData \<noteq> []
      then Some (fd_dscrRatio formData) else None)"

text \<open>
  The regular expression \<open>/DSCR:\s*DSCR\s*>=?\s*[\d.]+/i\<close> at the head of a string:
  the text after the match, when there is one.  Every step is forced, as no literal of
  the expression starts with a character of the class before it.
\<close>

definition matchDSCRAt :: "string \<Rightarrow> string option" where
  "matchDSCRAt s =
     (if startsWith (toUpperCase (take 5 s)) ''DSCR:'' then
        (let r1 = dropWhile isSpace (drop 5 s) in
           if startsWith (toUpperCase (take 4 r1)) ''DSCR'' then
             (let r2 = dropWhile isSpace (drop 4 r1) in
                case r2 of
                  [] \<Rightarrow> None
                | g # r3 \<Rightarrow>
                    if g = CHR ''>'' then
                      (let r4 = (case r3 of [] \<Rightarrow> [] | e # r \<Rightarrow> if e = CHR ''='' then r else r3);
                           r5 = dropWhile isSpace r4;
                           num = takeWhile (\<lambda>c. isDigit c \<or> c = CHR ''.'') r5
                       in if num = [] then None else Some (drop (length num) r5))
                    else None)
           else None)
      else None)"

text \<open>
  The replacement text of \<open>replace\<close> is a template: \<open>$$\<close> is a dollar sign, \<open>$&\<close> the
  matched text, \<open>$`\<close> the text before the match and \<open>$'\<close> the text after it (the
  expression has no groups, so \<open>$1\<close> stays as it is).
\<close>

fun getSubstitution :: "string \<Rightarrow> string \<Rightarrow> string \<Rightarrow> string \<Rightarrow> string" where
  "getSubstitution matched preceding following [] = []"
| "getSubstitution matched preceding following [c] = [c]"
| "getSubstitution matched preceding following (c # d # r) =
     (if c = CHR ''$'' \<and> d = CHR ''$'' then CHR ''$'' # getSubstitution matched preceding following r
      else if c = CHR ''$'' \<and> d = CHR ''&'' then matched @ getSubstitution matched preceding following r
      else if c = CHR ''$'' \<and> d = CHR 0x60 then preceding @ getSubstitution matched preceding following r
      else if c = CHR ''$'' \<and> d = CHR 0x27 then following @ getSubstitution matched preceding following r
      else c # getSubstitution matched preceding following (d # r))"

fun replaceDSCRFrom :: "string \<Rightarrow> string \<Rightarrow> string \<Rightarrow> string" where
  "replaceDSCRFrom preceding [] template = []"
| "replaceDSCRFrom preceding (c # cs) template =
     (case matchDSCRAt (c # cs) of
        Some following \<Rightarrow>
          getSubstitution (take (length (c # cs) - length following) (c # cs)) preceding following template
            @ following
      | None \<Rightarrow> c # replaceDSCRFrom (preceding @ [c]) cs template)"

definition replaceDSCR :: "string \<Rightarrow> string \<Rightarrow> string" where
  "replaceDSCR s template = replaceDSCRFrom [] s template"

definition keepAdjustment :: "FormData \<Rightarrow> Adjustment \<Rightarrow> bool" where
  "keepAdjustment formData adj =
     (let desc = toUpperCase (orElse (adj_description adj) [])
      in if \<not> isDSCRRequest formData \<and> includesStr desc ''DSCR'' then False
         else if fd_loanPurpose formData = ''refinance'' \<and> includesStr desc ''CASHOUT'' then False
         else True)"

definition rewriteAdjustment :: "FormData \<Rightarrow> Adjustment \<Rightarrow> Adjustment" where
  "rewriteAdjustment formData adj =
     (case actualDSCRValue formData of
        Some v \<Rightarrow>
          if isDSCRRequest formData \<and>
             includesStr (toUpperCase (orElse (adj_description adj) [])) ''DSCR''
          then
            adj\<lparr>adj_description :=
                  replaceDSCR (adj_description adj)
                    (''DSCR: '' @ v @ '' ('' @
                       (case actualDSCRTier formData of Some t \<Rightarrow> t | None \<Rightarrow> ''N/A'') @ '')'')\<rparr>
          else adj
      | None \<Rightarrow> adj)"

definition sanitizeAdjustments :: "FormData \<Rightarrow> Adjustment list \<Rightarrow> Adjustment list" where
  "sanitizeAdjustments formData adjs =
     map (rewriteAdjustment formData) (filter (keepAdjustment formData) adjs)"

definition sanitizeRateOption :: "FormData \<Rightarrow> RateOption \<Rightarrow> RateOption" where
  "sanitizeRateOption formData ro =
     (case opt_adjustments ro of
        None \<Rightarrow> ro
      | Some adjs \<Rightarrow> ro\<lparr>opt_adjustments := Some (sanitizeAdjustments formData adjs)\<rparr>)"

definition sanitizeProgram :: "FormData \<Rightarrow> Program \<Rightarrow> Program" where
  "sanitizeProgram formData p =
     p\<lparr>prog_rateOptions := map (sanitizeRateOption formData) (prog_rateOptions p)\<rparr>"

section \<open>The request handler after parsing\<close>

record ParseResult =
  pr_programs :: "Program list"
  pr_totalPrograms :: nat
  pr_globalAdjustments :: "Adjustment list option"
  pr_debugXmlSample :: string
  pr_debugAdjustmentsSection :: string

record ProgramSummary =
  sum_programName :: string
  sum_status :: string
  sum_rateOptionsCount :: nat
  sum_sampleRateDesc :: string

record DebugInfo =
  dbg_isInvestment :: bool
  dbg_occupancyType :: string
  dbg_eligibleCount :: nat

text \<open>
  The fields of the success payload that the pipeline determines.  The payment, the
  loan-to-value ratio and the echo of the sent values are computed from the loan amount
  and are left out.
\<close>

record PricingData =
  data_rate :: rat
  data_apr :: rat
  data_points :: rat
  data_programName :: string
  data_investorName :: string
  data_programs :: "Program list"
  data_totalPrograms :: nat
  data_source :: string
  data_globalAdjustments :: "Adjustment list option"
  data_debugXmlSample :: string
  data_debugAdjustmentsSection :: string

text \<open>A response: the HTTP status and the keys of the JSON body (an absent key is \<open>None\<close>).\<close>

record Response =
  res_httpStatus :: nat
  res_success :: bool
  res_error :: "string option"
  res_allPrograms :: "ProgramSummary list option"
  res_debug :: "DebugInfo option"
  res_data :: "PricingData option"

text \<open>
  The failures of the handler all answer \<open>{ success: false, error: message }\<close>: a wrong
  method with status 405, an exception with status 500, and a transport failure or an
  error reported by the engine with the default status 200.
\<close>

definition failureResponse :: "nat \<Rightarrow> string \<Rightarrow> Response" where
  "failureResponse httpStatus message =
     \<lparr> res_httpStatus = httpStatus, res_success = False, res_error = Some message,
       res_allPrograms = None, res_debug = None, res_data = None \<rparr>"

definition methodNotAllowed :: Response where
  "methodNotAllowed = failureResponse 405 ''Method not allowed''"

definition transportFailure :: "string \<Rightarrow> Response" where
  "transportFailure status = failureResponse 200 (''MeridianLink returned HTTP '' @ status)"

definition enginePricingError :: "string \<Rightarrow> Response" where
  "enginePricingError mlError = failureResponse 200 (orElse mlError ''Unknown pricing error'')"

definition caughtException :: "string \<Rightarrow> Response" where
  "caughtException message = failureResponse 500 message"

definition programSummary :: "Program \<Rightarrow> ProgramSummary" where
  "programSummary p =
     \<lparr> sum_programName = prog_programName p,
       sum_status = prog_status p,
       sum_rateOptionsCount = length (prog_rateOptions p),
       sum_sampleRateDesc =
         (case prog_rateOptions p of [] \<Rightarrow> ''N/A'' | ro # _ \<Rightarrow> orElse (opt_description ro) ''N/A'') \<rparr>"

text \<open>
  From the parsed result to the response: filter, sanitize, then either the answer for
  an empty list or the success payload.  The summaries of \<open>allPrograms\<close> are read from
  \<open>result.programs\<close> after the filter has run over the same objects.
\<close>

definition respond :: "FormData \<Rightarrow> ParseResult \<Rightarrow> Response" where
  "respond formData result =
     (let isInvestment = (fd_occupancyType formData = ''investment'');
          filtered = handlerFilter isInvestment (pr_programs result);
          resultPrograms = snd filtered;
          eligiblePrograms = map (sanitizeProgram formData) (fst filtered)
      in case eligiblePrograms of
           [] \<Rightarrow>
             \<lparr> res_httpStatus = 200, res_success = False,
               res_error = Some ''No programs found. Please adjust your scenario.'',
               res_allPrograms = Some (map programSummary resultPrograms),
               res_debug = Some \<lparr> dbg_isInvestment = isInvestment,
                                  dbg_occupancyType = fd_occupancyType formData,
                                  dbg_eligibleCount =
                                    length (filter (\<lambda>p. prog_status p = ''Eligible'') resultPrograms) \<rparr>,
               res_data = None \<rparr>
         | topProgram # _ \<Rightarrow>
             \<lparr> res_httpStatus = 200, res_success = True, res_error = None,
               res_allPrograms = None, res_debug = None,
               res_data = Some
                 \<lparr> data_rate = prog_rate topProgram,
                   data_apr = prog_apr topProgram,
                   data_points = prog_points topProgram,
                   data_programName = prog_programName topProgram,
                   data_investorName = orElse (prog_investorName topProgram) [],
                   data_programs = eligiblePrograms,
                   data_totalPrograms = length eligiblePrograms,
                   data_source = ''meridianlink'',
                   data_globalAdjustments =
                     (case pr_globalAdjustments result of
                        None \<Rightarrow> None
                      | Some adjs \<Rightarrow> Some (sanitizeAdjustments formData adjs)),
                   data_debugXmlSample = pr_debugXmlSample result,
                   data_debugAdjustmentsSection = pr_debugAdjustmentsSection result \<rparr> \<rparr>)"

text \<open>
  What the form does with a response: \<open>if (!data.success) throw new Error(data.error ||
  'Pricing request failed')\<close>, and the message caught is shown as the error.
\<close>

datatype formOutcome = ShowError string | ShowResult PricingData

definition handleSubmitOutcome :: "Response \<Rightarrow> formOutcome" where
  "handleSubmitOutcome r =
     (if \<not> res_success r then
        ShowError (case res_error r of
                     None \<Rightarrow> ''Pricing request failed''
                   | Some e \<Rightarrow> orElse e ''Pricing request failed'')
      else case res_data r of
             None \<Rightarrow> ShowError ''Invalid pricing response from server''
           | Some d \<Rightarrow> ShowResult d)"

section \<open>Program assembly and ordering\<close>

text \<open>\<open>xs.find(pred)\<close>.\<close>

fun findFirst :: "('a \<Rightarrow> bool) \<Rightarrow> 'a list \<Rightarrow> 'a option" where
  "findFirst pred [] = None"
| "findFirst pred (x # xs) = (if pred x then Some x else findFirst pred xs)"

text \<open>The representative rate option of a program.\<close>

definition bestOption :: "RateOption list \<Rightarrow> RateOption option" where
  "bestOption rateOptions =
     (case findFirst opt_bestPrice rateOptions of
        Some r \<Rightarrow> Some r
      | None \<Rightarrow>
          (case findFirst (\<lambda>r. opt_status r = ''Available'') rateOptions of
             Some r \<Rightarrow> Some r
           | None \<Rightarrow> (case rateOptions of [] \<Rightarrow> None | r # _ \<Rightarrow> Some r)))"

text \<open>
  The program object that the parser pushes, from the attributes already read (the
  record \<open>attrs\<close> carries them; its fields taken from the representative rate option are
  overwritten), or nothing when the name is empty or there is no rate option.
\<close>

definition buildProgram ::
  "Program \<Rightarrow> RateOption list \<Rightarrow> Adjustment list \<Rightarrow> Program option" where
  "buildProgram attrs rateOptions programAdjustments =
     (case bestOption rateOptions of
        None \<Rightarrow> None
      | Some best \<Rightarrow>
          if prog_name attrs = [] then None
          else Some (attrs
            \<lparr> prog_programName := prog_name attrs,
              prog_rate := opt_rate best,
              prog_apr := opt_apr best,
              prog_points := opt_points best,
              prog_payment := opt_payment best,
              prog_description := opt_description best,
              prog_investorName := opt_investor best,
              prog_totalClosingCost := opt_totalClosingCost best,
              prog_cashToClose := opt_cashToClose best,
              prog_rateOptions := rateOptions,
              prog_adjustments :=
                (if length programAdjustments > 0 then Some programAdjustments else None) \<rparr>))"

text \<open>The comparator handed to \<open>programs.sort\<close>.\<close>

definition compareFn :: "Program \<Rightarrow> Program \<Rightarrow> rat" where
  "compareFn a b =
     (let aEligible = (if prog_status a = ''Eligible'' then 0 else 1);
          bEligible = (if prog_status b = ''Eligible'' then 0 else 1)
      in if aEligible \<noteq> bEligible then aEligible - bEligible
         else prog_rate a - prog_rate b)"

text \<open>
  \<open>Array.prototype.sort\<close> is a stable sort.  It is modelled by the stable insertion
  sort: an element goes in front of the first element that it does not come after.
\<close>

fun insertSorted :: "('a \<Rightarrow> 'a \<Rightarrow> rat) \<Rightarrow> 'a \<Rightarrow> 'a list \<Rightarrow> 'a list" where
  "insertSorted cmp x [] = [x]"
| "insertSorted cmp x (y # ys) =
     (if cmp x y \<le> 0 then x # y # ys else y # insertSorted cmp x ys)"

definition sortBy :: "('a \<Rightarrow> 'a \<Rightarrow> rat) \<Rightarrow> 'a list \<Rightarrow> 'a list" where
  "sortBy cmp xs = foldr (insertSorted cmp) xs []"

definition sortPrograms :: "Program list \<Rightarrow> Program list" where
  "sortPrograms programs = sortBy compareFn programs"

text \<open>The key that the comparator orders by: the eligibility class, then the rate.\<close>

definition sortKey :: "Program \<Rightarrow> nat \<times> rat" where
  "sortKey p = (if prog_status p = ''Eligible'' then 0 else 1, prog_rate p)"

section \<open>XML entities\<close>

text \<open>
  \<open>s.replace(/pat/g, rep)\<close> for a literal, non-empty pattern and a replacement
  without \<open>$\<close>: every occurrence, left to right, the search going on after each match.
\<close>

fun replaceAll :: "string \<Rightarrow> string \<Rightarrow> string \<Rightarrow> string" where
  "replaceAll pat rep [] = []"
| "replaceAll pat rep (c # cs) =
     (if pat \<noteq> [] \<and> startsWith (c # cs) pat
      then rep @ replaceAll pat rep (drop (length pat - 1) cs)
      else c # replaceAll pat rep cs)"

definition escapeXml :: "string \<Rightarrow> string" where
  "escapeXml unsafe =
     (if unsafe = [] then []
      else replaceAll [CHR 0x27] ''&apos;''
             (replaceAll [CHR 0x22] ''&quot;''
                (replaceAll ''>'' ''&gt;''
                   (replaceAll ''<'' ''&lt;''
                      (replaceAll ''&'' ''&amp;'' unsafe)))))"

definition unescapeXml :: "string \<Rightarrow> string" where
  "unescapeXml escaped =
     (if escaped = [] then []
      else replaceAll ''&amp;'' ''&''
             (replaceAll ''&apos;'' [CHR 0x27]
                (replaceAll ''&quot;'' [CHR 0x22]
                   (replaceAll ''&gt;'' ''>''
                      (replaceAll ''&lt;'' ''<'' escaped)))))"

definition unescapeHtmlEntities :: "string \<Rightarrow> string" where
  "unescapeHtmlEntities t =
     (if t = [] then []
      else replaceAll ''&amp;'' ''&''
             (replaceAll ''&apos;'' [CHR 0x27]
                (replaceAll ''&quot;'' [CHR 0x22]
                   (replaceAll ''&lt;'' ''<''
                      (replaceAll ''&gt;'' ''>'' t)))))"

text \<open>The five entities that \<open>unescapeXml\<close> decodes.\<close>

definition xmlEntities :: "string list" where
  "xmlEntities = [''&lt;'', ''&gt;'', ''&quot;'', ''&apos;'', ''&amp;'']"

definition noEntities :: "string \<Rightarrow> bool" where
  "noEntities s = (\<forall>e \<in> set xmlEntities. \<not> includesStr s e)"

section \<open>Adjustment table parser\<close>

text \<open>
  \<open>getAttr(tag, attr)\<close> matches \<open>attr="([^"]*)"\<close> without regard to case and returns
  the group of the first match, or the empty string.  (The attribute names that the
  parser asks for are plain words, so the name is a literal of the expression.)
\<close>

definition matchAttrAt :: "string \<Rightarrow> string \<Rightarrow> string option" where
  "matchAttrAt s attr =
     (if startsWith (toUpperCase (take (length attr + 2) s)) (toUpperCase (attr @ ''='' @ [CHR 0x22]))
      then
        (let r = drop (length attr + 2) s;
             v = takeWhile (\<lambda>c. c \<noteq> CHR 0x22) r
         in if length v < length r then Some v else None)
      else None)"

fun getAttr :: "string \<Rightarrow> string \<Rightarrow> string" where
  "getAttr [] attr = []"
| "getAttr (c # cs) attr =
     (case matchAttrAt (c # cs) attr of
        Some v \<Rightarrow> v
      | None \<Rightarrow> getAttr cs attr)"

text \<open>
  \<open>parseFloat\<close>: white space is skipped, then the longest prefix that is a decimal
  literal is read (a sign, digits with an optional fraction, or a fraction alone, and
  an optional exponent); without such a prefix the result is \<open>NaN\<close>, here \<open>None\<close>.
  The value is the exact decimal.  (The literal \<open>Infinity\<close> is not a finite number and
  is not modelled.)
\<close>

definition digitValue :: "char \<Rightarrow> nat" where
  "digitValue c = (case map_of (zip ''0123456789'' [0, 1, 2, 3, 4, 5, 6, 7, 8, 9]) c of
                     Some d \<Rightarrow> d | None \<Rightarrow> 0)"

definition digitsValue :: "string \<Rightarrow> nat" where
  "digitsValue ds = foldl (\<lambda>a c. 10 * a + digitValue c) 0 ds"

text \<open>The exponent part at the head of a string: its value and the text after it.\<close>

definition parseExponent :: "string \<Rightarrow> int" where
  "parseExponent s =
     (case s of
        [] \<Rightarrow> 0
      | e # r \<Rightarrow>
          if e = CHR ''e'' \<or> e = CHR ''E'' then
            (case r of
               [] \<Rightarrow> 0
             | g # r' \<Rightarrow>
                 if g = CHR ''-'' then
                   (if takeWhile isDigit r' = [] then 0
                    else - int (digitsValue (takeWhile isDigit r')))
                 else if g = CHR ''+'' then int (digitsValue (takeWhile isDigit r'))
                 else int (digitsValue (takeWhile isDigit r)))
          else 0)"

definition scaleByPowerOfTen :: "rat \<Rightarrow> int \<Rightarrow> rat" where
  "scaleByPowerOfTen m e = (if e \<ge> 0 then m * 10 ^ nat e else m / 10 ^ nat (- e))"

text \<open>An unsigned decimal literal at the head of a string.\<close>

definition parseUnsigned :: "string \<Rightarrow> rat option" where
  "parseUnsigned s =
     (let ip = takeWhile isDigit s;
          r = dropWhile isDigit s;
          hasPoint = (case r of [] \<Rightarrow> False | d # _ \<Rightarrow> d = CHR ''.'');
          fp = (if hasPoint then takeWhile isDigit (drop 1 r) else []);
          r' = (if hasPoint \<and> (ip \<noteq> [] \<or> fp \<noteq> []) then dropWhile isDigit (drop 1 r) else r)
      in if ip = [] \<and> fp = [] then None
         else Some (scaleByPowerOfTen
                      (of_nat (digitsValue ip) + of_nat (digitsValue fp) / 10 ^ length fp)
                      (parseExponent r')))"

definition parseFloat :: "string \<Rightarrow> rat option" where
  "parseFloat s =
     (case dropWhile isSpace s of
        [] \<Rightarrow> None
      | c # r \<Rightarrow>
          if c = CHR ''-'' then map_option uminus (parseUnsigned r)
          else if c = CHR ''+'' then parseUnsigned r
          else parseUnsigned (c # r))"

text \<open>\<open>parseFloat(..) || 0\<close>: \<open>NaN\<close> and zero are falsy.\<close>

definition orZero :: "rat option \<Rightarrow> rat" where
  "orZero v = (case v of None \<Rightarrow> 0 | Some x \<Rightarrow> x)"

text \<open>
  One \<open>AdjustmentItem\<close>, from its attribute text to the adjustment pushed for it; a
  hidden item and an item without a description push nothing.
\<close>

definition parseAdjustmentItem :: "string \<Rightarrow> Adjustment option" where
  "parseAdjustmentItem adjAttrs =
     (let desc = getAttr adjAttrs ''Description'';
          isHidden = (getAttr adjAttrs ''IsHidden'' = ''True'')
      in if isHidden then None
         else
           (let pointStr = orElse (getAttr adjAttrs ''Point'') ''0'';
                pointVal = orZero (parseFloat (replaceFirst ''%'' [] pointStr));
                priceAdj = - pointVal;
                rateStr = orElse (getAttr adjAttrs ''Rate'') ''0'';
                rateAdj = orZero (parseFloat (replaceFirst ''%'' [] rateStr))
            in if desc \<noteq> [] then
                 Some \<lparr> adj_description = unescapeHtmlEntities desc,
                        adj_amount = priceAdj,
                        adj_rateAdj = rateAdj \<rparr>
               else None))"

text \<open>
  The expression \<open>/<AdjustmentItem\s+([^>]+)\/?>/gi\<close> at the head of a string: the
  group and the length of the match.  The group runs up to the next \<open>>\<close>; it
  is what follows the white space, or the last white-space character when nothing else
  follows.
\<close>

definition matchItemAt :: "string \<Rightarrow> (string \<times> nat) option" where
  "matchItemAt s =
     (if startsWith (toUpperCase (take 15 s)) ''<ADJUSTMENTITEM'' then
        (let r = drop 15 s;
             body = takeWhile (\<lambda>c. c \<noteq> CHR ''>'') r;
             w = takeWhile isSpace body;
             g = dropWhile isSpace body
         in if length body < length r \<and> w \<noteq> [] then
              (if g \<noteq> [] then Some (g, 15 + length body + 1)
               else if length w \<ge> 2 then Some ([last w], 15 + length body + 1)
               else None)
            else None)
      else None)"

text \<open>
  The \<open>exec\<close> loop over a block: \<open>skip\<close> counts the characters of the last match that
  are still to be passed over.
\<close>

fun scanItems :: "nat \<Rightarrow> string \<Rightarrow> string list" where
  "scanItems skip [] = []"
| "scanItems skip (c # cs) =
     (if skip > 0 then scanItems (skip - 1) cs
      else case matchItemAt (c # cs) of
             Some (g, n) \<Rightarrow> g # scanItems (n - 1) cs
           | None \<Rightarrow> scanItems 0 cs)"

definition parseAdjustmentBlock :: "string \<Rightarrow> Adjustment list" where
  "parseAdjustmentBlock adjBlockContent =
     List.map_filter parseAdjustmentItem (scanItems 0 adjBlockContent)"

section \<open>Notions used in the statements\<close>

text \<open>
  The order asked of the sorted list: an eligible program is never after one that is not,
  and of two programs of the same eligibility class the one with the lower rate is first.
\<close>

definition comesBefore :: "Program \<Rightarrow> Program \<Rightarrow> bool" where
  "comesBefore a b =
     ((prog_status b = ''Eligible'' \<longrightarrow> prog_status a = ''Eligible'') \<and>
      ((prog_status a = ''Eligible'') = (prog_status b = ''Eligible'') \<longrightarrow>
         prog_rate a \<le> prog_rate b))"

text \<open>
  What the parser guarantees of a program it builds: the description is that of its
  representative rate option.
\<close>

definition representativeDescribed :: "Program \<Rightarrow> bool" where
  "representativeDescribed p =
     (case bestOption (prog_rateOptions p) of
        None \<Rightarrow> False
      | Some best \<Rightarrow> prog_description p = opt_description best)"

text \<open>The message of the answer for an empty list.\<close>

definition noProgramsMessage :: string where
  "noProgramsMessage = ''No programs found. Please adjust your scenario.''"

text \<open>
  For the proofs about escaping: the text in which exactly the characters of a given list
  are written as their entities.
\<close>

definition entityTable :: "(char \<times> string) list" where
  "entityTable =
     [(CHR ''&'', ''&amp;''), (CHR ''<'', ''&lt;''), (CHR ''>'', ''&gt;''),
      (CHR 0x22, ''&quot;''), (CHR 0x27, ''&apos;'')]"

definition encodeChar :: "char list \<Rightarrow> char \<Rightarrow> string" where
  "encodeChar cs c =
     (if c \<in> set cs then (case map_of entityTable c of Some e \<Rightarrow> e | None \<Rightarrow> [c]) else [c])"

definition encodeChars :: "char list \<Rightarrow> string \<Rightarrow> string" where
  "encodeChars cs s = concat (map (encodeChar cs) s)"

section \<open>Sample data\<close>

text \<open>A rate option and a program with the given fields and plain values elsewhere.\<close>

definition sampleOption :: "string \<Rightarrow> rat \<Rightarrow> RateOption" where
  "sampleOption description points =
     \<lparr> opt_rate = 7, opt_points = points, opt_apr = 7, opt_payment = 2500,
       opt_description = description, opt_investor = [], opt_status = ''Available'',
       opt_bestPrice = False, opt_totalClosingCost = 0, opt_cashToClose = 0,
       opt_adjustments = None \<rparr>"

definition sampleProgram :: "string \<Rightarrow> string \<Rightarrow> rat \<Rightarrow> RateOption list \<Rightarrow> Program" where
  "sampleProgram name status rate rateOptions =
     \<lparr> prog_name = name, prog_programName = name, prog_status = status, prog_term = 360,
       prog_finMethod = [], prog_loanType = [], prog_parRate = 0, prog_parPoints = 0,
       prog_investor = [], prog_lockDays = 30, prog_rate = rate, prog_apr = rate,
       prog_points = 0, prog_payment = 0,
       prog_description = (case rateOptions of [] \<Rightarrow> [] | ro # _ \<Rightarrow> opt_description ro),
       prog_investorName = [], prog_totalClosingCost = 0, prog_cashToClose = 0,
       prog_rateOptions = rateOptions, prog_adjustments = None \<rparr>"

text \<open>Rate options priced 98.8 and 99.5 in one program, 100.2 and 101.3 in the next.\<close>

definition fourPrices :: "Program list" where
  "fourPrices =
     [sampleProgram ''30yr Fixed A'' ''Eligible'' 7
        [sampleOption ''A 98.8'' (12 / 10), sampleOption ''A 99.5'' (5 / 10)],
      sampleProgram ''30yr Fixed B'' ''Eligible'' 7
        [sampleOption ''B 100.2'' (- 2 / 10), sampleOption ''B 101.3'' (- 13 / 10)]]"

text \<open>
  Programs of every kind: a penalty in the name, not eligible, eligible with rate options
  of three kinds, and eligible with a penalty in its only rate option.
\<close>

definition mixedPrograms :: "Program list" where
  "mixedPrograms =
     [sampleProgram ''Investor 30yr 3 YR PPP'' ''Eligible'' 7 [sampleOption ''30yr Fixed'' 0],
      sampleProgram ''Prime 30yr'' ''Ineligible'' 6 [sampleOption ''0 YR PPP 30yr Fixed'' 0],
      sampleProgram ''Select 30yr'' ''Eligible'' (13 / 2)
        [sampleOption ''0 YR PPP 30yr Fixed'' (1 / 4),
         sampleOption ''2 YR PPP 30yr Fixed'' 0,
         sampleOption ''10 YR PPP 30yr Fixed'' (- 1 / 8)],
      sampleProgram ''Flex 30yr'' ''Eligible'' 6 [sampleOption ''5YR PPP'' 0]]"

text \<open>A ten-year penalty: its description contains \<open>0 YR PPP\<close>.\<close>

definition tenYearOption :: RateOption where
  "tenYearOption = sampleOption ''10 YR PPP 30yr Fixed'' (- 1 / 8)"

text \<open>A DSCR request with the computed ratio 1.312 in the top tier.\<close>

definition dscrForm :: FormData where
  "dscrForm =
     \<lparr> fd_documentationType = ''dscr'', fd_loanType = ''nonqm'',
       fd_occupancyType = ''investment'', fd_loanPurpose = ''purchase'',
       fd_dscrValue = Some (1312 / 1000), fd_dscrRatio = ''>=1.250'' \<rparr>"

definition dscrTierAdjustment :: Adjustment where
  "dscrTierAdjustment =
     \<lparr> adj_description = ''DSCR: DSCR >= 1.25'', adj_amount = - 1 / 2, adj_rateAdj = 1 / 8 \<rparr>"

text \<open>A full-documentation purchase of a primary residence.\<close>

definition primaryForm :: FormData where
  "primaryForm =
     \<lparr> fd_documentationType = ''fullDoc'', fd_loanType = ''nonqm'',
       fd_occupancyType = ''primary'', fd_loanPurpose = ''purchase'',
       fd_dscrValue = None, fd_dscrRatio = [] \<rparr>"

definition sampleAdjustments :: "Adjustment list" where
  "sampleAdjustments =
     [\<lparr> adj_description = ''LTV 75.01-80'', adj_amount = - 1 / 4, adj_rateAdj = 0 \<rparr>,
      \<lparr> adj_description = ''DSCR: DSCR >= 1.25'', adj_amount = - 1 / 2, adj_rateAdj = 0 \<rparr>,
      \<lparr> adj_description = ''Dscr below 1.00'', adj_amount = - 1, adj_rateAdj = 1 / 8 \<rparr>]"

text \<open>A parsed result whose adjustment lists carry DSCR lines.\<close>

definition adjustedResult :: ParseResult where
  "adjustedResult =
     \<lparr> pr_programs =
         [sampleProgram ''Select 30yr'' ''Eligible'' (13 / 2)
            [(sampleOption ''30yr Fixed'' (1 / 4))\<lparr>opt_adjustments := Some sampleAdjustments\<rparr>,
             sampleOption ''30yr Fixed'' 0]],
       pr_totalPrograms = 1,
       pr_globalAdjustments = Some sampleAdjustments,
       pr_debugXmlSample = [],
       pr_debugAdjustmentsSection = [] \<rparr>"

text \<open>The double quote.\<close>

definition dq :: string where
  "dq = [CHR 0x22]"

text \<open>\<open>Point="0.500%" Description="LTV"\<close>\<close>

definition halfPointItem :: string where
  "halfPointItem = ''Point='' @ dq @ ''0.500%'' @ dq @ '' Description='' @ dq @ ''LTV'' @ dq"

text \<open>\<open>Point="-0.250%" Rate="0.125%" Description="FICO"\<close>\<close>

definition quarterCreditItem :: string where
  "quarterCreditItem =
     ''Point='' @ dq @ ''-0.250%'' @ dq @ '' Rate='' @ dq @ ''0.125%'' @ dq @
     '' Description='' @ dq @ ''FICO'' @ dq"

text \<open>
  The attribute text of an element with the given attributes, in their order:
  \<open>name="value"\<close> pairs with a space between them.
\<close>

fun renderAttributes :: "(string \<times> string) list \<Rightarrow> string" where
  "renderAttributes [] = []"
| "renderAttributes [(n, v)] = n @ ''='' @ dq @ v @ dq"
| "renderAttributes ((n, v) # a # rest) =
     n @ ''='' @ dq @ v @ dq @ '' '' @ renderAttributes (a # rest)"

text \<open>
  An item with \<open>ParPoint="1.000%"\<close> in front of \<open>Point="0.500%"\<close>.
\<close>

definition shadowedPointItem :: "(string \<times> string) list" where
  "shadowedPointItem =
     [(''ParPoint'', ''1.000%''), (''Point'', ''0.500%''), (''Description'', ''LTV'')]"

text \<open>A piece of markup with all five special characters and no entity.\<close>

definition markupSample :: string where
  "markupSample = ''<a href='' @ dq @ ''x?y=1&z=2'' @ dq @ ''>it'' @ [CHR 0x27] @ ''s</a>''"

text \<open>Statuses Ineligible, Eligible, Eligible with the rates 3, 5 and 4.\<close>

definition threePrograms :: "Program list" where
  "threePrograms =
     [sampleProgram ''First'' ''Ineligible'' 3 [sampleOption ''30yr Fixed'' 0],
      sampleProgram ''Second'' ''Eligible'' 5 [sampleOption ''30yr Fixed'' 0],
      sampleProgram ''Third'' ''Eligible'' 4 [sampleOption ''30yr Fixed'' 0]]"

text \<open>
  A parsed result that the filter empties for a primary residence: one eligible program
  whose representative carries a penalty, and one program that is not eligible.
\<close>

definition penaltyOnlyResult :: ParseResult where
  "penaltyOnlyResult =
     \<lparr> pr_programs =
         [sampleProgram ''Investor 30yr'' ''Eligible'' 6
            [sampleOption ''3 YR PPP 30yr Fixed'' 0, sampleOption ''0 YR PPP 30yr Fixed'' (1 / 2)],
          sampleProgram ''Prime 30yr'' ''Ineligible'' 7 [sampleOption ''30yr Fixed'' 0]],
       pr_totalPrograms = 2,
       pr_globalAdjustments = None,
       pr_debugXmlSample = [],
       pr_debugAdjustmentsSection = [] \<rparr>"

section \<open>The selector returns the first closest option\<close>

lemma updateTarget_stepCloser:
  "updateTarget n opt st = (if inBand opt then stepCloser (toTarget n opt) st else st)"
  by (simp add: updateTarget_def stepCloser_def inBand_def distanceToPar_def toTarget_def
      safeNumber_def Let_def)

lemma fold_options_stepCloser:
  assumes "\<And>opt st. opt \<in> set opts \<Longrightarrow> body opt st = (if keep opt then updateTarget n opt st else st)"
  shows "fold body opts st =
         fold stepCloser (map (toTarget n) (filter (\<lambda>opt. keep opt \<and> inBand opt) opts)) st"
  using assms
proof (induction opts arbitrary: st)
  case Nil
  then show ?case by simp
next
  case (Cons a opts)
  then show ?case by (simp add: updateTarget_stepCloser)
qed

lemma forEachOption_scanTargets:
  assumes "\<And>p opt st. p \<in> set programs \<Longrightarrow> opt \<in> set (prog_rateOptions p) \<Longrightarrow>
             body (programLabel p) opt st =
               (if keep (programLabel p) opt then updateTarget (programLabel p) opt st else st)"
  shows "forEachOption body programs st = fold stepCloser (scanTargets keep programs) st"
  using assms
proof (induction programs arbitrary: st)
  case Nil
  then show ?case by (simp add: forEachOption_def scanTargets_def)
next
  case (Cons p programs)
  have inner: "fold (body (programLabel p)) (prog_rateOptions p) st =
        fold stepCloser (map (toTarget (programLabel p))
          (filter (\<lambda>opt. keep (programLabel p) opt \<and> inBand opt) (prog_rateOptions p))) st"
    by (rule fold_options_stepCloser) (simp add: Cons.prems)
  have rest: "\<And>st'. forEachOption body programs st' = fold stepCloser (scanTargets keep programs) st'"
    by (rule Cons.IH) (simp add: Cons.prems)
  show ?case
    using inner rest
    by (simp add: forEachOption_def scanTargets_def programLabel_def)
qed

lemma stepCloser_Infinity: "stepCloser t (r, Infinity) = (Some t, Finite (distanceToPar t))"
  by (simp add: stepCloser_def)

lemma stepCloser_Finite:
  "stepCloser t (r, Finite e) =
     (if distanceToPar t < e then (Some t, Finite (distanceToPar t)) else (r, Finite e))"
  by (simp add: stepCloser_def)

lemma fold_stepCloser_invariant:
  "let r = fold stepCloser cs (None, Infinity) in
     firstClosestToPar cs (fst r) \<and>
     snd r = (case fst r of None \<Rightarrow> Infinity | Some t \<Rightarrow> Finite (distanceToPar t))"
proof (induction cs rule: rev_induct)
  case Nil
  then show ?case by (simp add: firstClosestToPar_def)
next
  case (snoc x xs)
  obtain r d where rd: "fold stepCloser xs (None, Infinity) = (r, d)"
    by (cases "fold stepCloser xs (None, Infinity)")
  show ?case
  proof (cases r)
    case None
    with snoc rd have "xs = []" "d = Infinity"
      by (simp_all add: firstClosestToPar_def)
    then show ?thesis
      by (simp add: stepCloser_Infinity firstClosestToPar_def)
  next
    case (Some t)
    with snoc rd obtain i where i: "i < length xs" "xs ! i = t"
        "\<forall>j<length xs. distanceToPar t \<le> distanceToPar (xs ! j)"
        "\<forall>j<i. distanceToPar t < distanceToPar (xs ! j)"
      and d: "d = Finite (distanceToPar t)"
      by (auto simp: firstClosestToPar_def)
    show ?thesis
    proof (cases "distanceToPar x < distanceToPar t")
      case True
      have "\<forall>j<length (xs @ [x]). distanceToPar x \<le> distanceToPar ((xs @ [x]) ! j)"
        using True i(3) by (fastforce simp: nth_append less_Suc_eq)
      moreover have "\<forall>j<length xs. distanceToPar x < distanceToPar ((xs @ [x]) ! j)"
        using True i(3) by (fastforce simp: nth_append)
      ultimately have "firstClosestToPar (xs @ [x]) (Some x)"
        unfolding firstClosestToPar_def
        by (auto intro!: exI[of _ "length xs"])
      then show ?thesis using True rd Some d by (simp add: stepCloser_Finite)
    next
      case False
      have "firstClosestToPar (xs @ [x]) (Some t)"
        unfolding firstClosestToPar_def
        using False i by (auto intro!: exI[of _ i] simp: nth_append less_Suc_eq)
      then show ?thesis using False rd Some d by (simp add: stepCloser_Finite)
    qed
  qed
qed

lemma fold_stepCloser_firstClosest:
  "firstClosestToPar cs (fst (fold stepCloser cs (None, Infinity)))"
  using fold_stepCloser_invariant[of cs] by (simp add: Let_def)

lemma fold_stepCloser_None:
  "fst (fold stepCloser cs (None, Infinity)) = None \<Longrightarrow>
   fold stepCloser cs (None, Infinity) = (None, Infinity)"
  using fold_stepCloser_invariant[of cs]
  by (cases "fold stepCloser cs (None, Infinity)") (simp add: Let_def)

text \<open>Without a permitted penalty both passes run the same test over the same list.\<close>

lemma twoPasses_same:
  assumes p1: "\<And>st. forEachOption pass1 programs st = fold stepCloser cs st"
      and p2: "\<And>st. forEachOption pass2 programs st = fold stepCloser cs st"
  shows "(if fst (forEachOption pass1 programs (None, Infinity)) = None
          then fst (forEachOption pass2 programs (forEachOption pass1 programs (None, Infinity)))
          else fst (forEachOption pass1 programs (None, Infinity)))
         = fst (fold stepCloser cs (None, Infinity))"
proof (cases "fst (fold stepCloser cs (None, Infinity)) = None")
  case True
  then have "fold stepCloser cs (None, Infinity) = (None, Infinity)"
    by (rule fold_stepCloser_None)
  then show ?thesis by (simp add: p1 p2)
next
  case False
  then show ?thesis by (auto simp: p1)
qed

lemma getTargetPricing_nonInvestment:
  assumes "occupancyType \<noteq> ''investment''"
  shows "getTargetPricing programs occupancyType prepayPeriod =
         fst (fold stepCloser (scanTargets (\<lambda>n opt. \<not> optionHasPPP n opt) programs) (None, Infinity))"
proof -
  have p1: "\<And>st. forEachOption (firstPassOption False []) programs st =
        fold stepCloser (scanTargets (\<lambda>n opt. \<not> optionHasPPP n opt) programs) st"
    by (rule forEachOption_scanTargets) (simp add: firstPassOption_def optionHasPPP_def Let_def)
  have p2: "\<And>st. forEachOption (fallbackOption False) programs st =
        fold stepCloser (scanTargets (\<lambda>n opt. \<not> optionHasPPP n opt) programs) st"
    by (rule forEachOption_scanTargets) (simp add: fallbackOption_def optionHasPPP_def Let_def)
  have "getTargetPricing programs occupancyType prepayPeriod =
        (if fst (forEachOption (firstPassOption False []) programs (None, Infinity)) = None
         then fst (forEachOption (fallbackOption False) programs
                     (forEachOption (firstPassOption False []) programs (None, Infinity)))
         else fst (forEachOption (firstPassOption False []) programs (None, Infinity)))"
    using assms by (simp add: getTargetPricing_def isPPPAllowed_def Let_def)
  also have "\<dots> = fst (fold stepCloser (scanTargets (\<lambda>n opt. \<not> optionHasPPP n opt) programs)
                         (None, Infinity))"
    by (rule twoPasses_same[OF p1 p2])
  finally show ?thesis .
qed

lemma appGetTargetPricing_nonInvestment:
  assumes "occupancyType \<noteq> ''investment''"
  shows "appGetTargetPricing programs occupancyType =
         fst (fold stepCloser (scanTargets (\<lambda>n opt. \<not> optionHasPPP n opt) programs) (None, Infinity))"
proof -
  have p1: "\<And>st. forEachOption (appFirstPassOption False) programs st =
        fold stepCloser (scanTargets (\<lambda>n opt. \<not> optionHasPPP n opt) programs) st"
    by (rule forEachOption_scanTargets) (simp add: appFirstPassOption_def optionHasPPP_def Let_def)
  have p2: "\<And>st. forEachOption (fallbackOption False) programs st =
        fold stepCloser (scanTargets (\<lambda>n opt. \<not> optionHasPPP n opt) programs) st"
    by (rule forEachOption_scanTargets) (simp add: fallbackOption_def optionHasPPP_def Let_def)
  have "appGetTargetPricing programs occupancyType =
        (if fst (forEachOption (appFirstPassOption False) programs (None, Infinity)) = None
         then fst (forEachOption (fallbackOption False) programs
                     (forEachOption (appFirstPassOption False) programs (None, Infinity)))
         else fst (forEachOption (appFirstPassOption False) programs (None, Infinity)))"
    using assms by (simp add: appGetTargetPricing_def Let_def)
  also have "\<dots> = fst (fold stepCloser (scanTargets (\<lambda>n opt. \<not> optionHasPPP n opt) programs)
                         (None, Infinity))"
    by (rule twoPasses_same[OF p1 p2])
  finally show ?thesis .
qed

lemma scanTargets_no_penalty:
  assumes "\<forall>p\<in>set programs. \<forall>opt\<in>set (prog_rateOptions p). \<not> optionHasPPP (programLabel p) opt"
  shows "scanTargets (\<lambda>n opt. \<not> optionHasPPP n opt) programs = bandTargets programs"
proof -
  have "\<And>p. p \<in> set programs \<Longrightarrow>
      filter (\<lambda>opt. \<not> optionHasPPP (programLabel p) opt \<and> inBand opt) (prog_rateOptions p) =
      filter (\<lambda>opt. True \<and> inBand opt) (prog_rateOptions p)"
    using assms by (intro filter_cong) auto
  then show ?thesis
    unfolding scanTargets_def bandTargets_def
    by (intro arg_cong[where f=concat] map_cong) auto
qed

text \<open>
  Claim C1.  In a scenario that is not an investment, over a program list in which the
  selector finds no penalty-bearing rate option, the selector (the pricing logic's and
  the form's copy alike) returns, among all rate options of the band from 99 to 101 in
  scan order, the one whose price is closest to 100, the first of them on a tie; it
  returns nothing exactly when no rate option is in the band.
\<close>

theorem selector_closest_to_par:
  assumes "occupancyType \<noteq> ''investment''"
      and "\<forall>p\<in>set programs. \<forall>opt\<in>set (prog_rateOptions p). \<not> optionHasPPP (programLabel p) opt"
  shows "firstClosestToPar (bandTargets programs) (getTargetPricing programs occupancyType prepayPeriod) \<and>
         firstClosestToPar (bandTargets programs) (appGetTargetPricing programs occupancyType)"
  using fold_stepCloser_firstClosest[of "bandTargets programs"]
  by (simp add: getTargetPricing_nonInvestment[OF assms(1)]
      appGetTargetPricing_nonInvestment[OF assms(1)] scanTargets_no_penalty[OF assms(2)])


text \<open>
  The selector on the four prices 98.8, 99.5, 100.2 and 101.3 of a primary residence:
  the option priced 100.2 is returned (0.2 from par against 0.5).
\<close>

theorem selector_four_prices:
  "''primary'' \<noteq> ''investment'' \<and>
   list_all (\<lambda>p. list_all (\<lambda>opt. \<not> optionHasPPP (programLabel p) opt) (prog_rateOptions p))
     fourPrices \<and>
   firstClosestToPar (bandTargets fourPrices) (getTargetPricing fourPrices ''primary'' ''3year'') \<and>
   firstClosestToPar (bandTargets fourPrices) (appGetTargetPricing fourPrices ''primary'') \<and>
   getTargetPricing fourPrices ''primary'' ''3year'' =
     Some (toTarget ''30yr Fixed B'' (sampleOption ''B 100.2'' (- 2 / 10))) \<and>
   appGetTargetPricing fourPrices ''primary'' =
     Some (toTarget ''30yr Fixed B'' (sampleOption ''B 100.2'' (- 2 / 10))) \<and>
   tp_price (toTarget ''30yr Fixed B'' (sampleOption ''B 100.2'' (- 2 / 10))) = 1002 / 10"
proof -
  have h1: "''primary'' \<noteq> ''investment''" by simp
  have l2: "list_all (\<lambda>p. list_all (\<lambda>opt. \<not> optionHasPPP (programLabel p) opt)
                            (prog_rateOptions p)) fourPrices"
    by code_simp
  then have h2: "\<forall>p\<in>set fourPrices. \<forall>opt\<in>set (prog_rateOptions p).
              \<not> optionHasPPP (programLabel p) opt"
    by (simp add: list_all_iff)
  have e1: "getTargetPricing fourPrices ''primary'' ''3year'' =
     Some (toTarget ''30yr Fixed B'' (sampleOption ''B 100.2'' (- 2 / 10)))"
    by code_simp
  have e2: "appGetTargetPricing fourPrices ''primary'' =
     Some (toTarget ''30yr Fixed B'' (sampleOption ''B 100.2'' (- 2 / 10)))"
    by code_simp
  have e3: "tp_price (toTarget ''30yr Fixed B'' (sampleOption ''B 100.2'' (- 2 / 10))) = 1002 / 10"
    by (simp add: toTarget_def sampleOption_def safeNumber_def)
  from selector_closest_to_par[OF h1 h2, of "''3year''"] h1 l2 e1 e2 e3
  show ?thesis by simp
qed

section \<open>Penalty classification\<close>

text \<open>
  Claim C3.  A description \<open>2 YR PPP 30yr Fixed\<close> is classified penalty-bearing;
  \<open>0 YR PPP 30yr Fixed\<close> and \<open>0MO PPP\<close> are classified not penalty-bearing.  The
  handler's classifier and the pricing logic's agree on the three.
\<close>

theorem penalty_classification_examples:
  "hasPPPInName ''2 YR PPP 30yr Fixed'' \<and>
   \<not> hasPPPInName ''0 YR PPP 30yr Fixed'' \<and>
   \<not> hasPPPInName ''0MO PPP'' \<and>
   hasPPP ''2 YR PPP 30yr Fixed'' \<and>
   \<not> hasPPP ''0 YR PPP 30yr Fixed'' \<and>
   \<not> hasPPP ''0MO PPP''"
  by (simp add: hasPPPInName_def hasPPP_def toUpperCase_def upperChar_def)


section \<open>Substrings and upper case\<close>

lemma startsWith_iff: "startsWith s p \<longleftrightarrow> (\<exists>r. s = p @ r)"
  by (induction s p rule: startsWith.induct) auto

lemma includesStr_iff: "includesStr s p \<longleftrightarrow> (\<exists>a b. s = a @ p @ b)"
proof (induction s)
  case Nil
  then show ?case by (simp add: startsWith_iff)
next
  case (Cons c cs)
  show ?case
  proof
    assume "includesStr (c # cs) p"
    then consider "startsWith (c # cs) p" | "includesStr cs p" by auto
    then show "\<exists>a b. c # cs = a @ p @ b"
    proof cases
      case 1
      then obtain r where "c # cs = p @ r" by (auto simp: startsWith_iff)
      then have "c # cs = [] @ p @ r" by simp
      then show ?thesis by blast
    next
      case 2
      then obtain a b where "cs = a @ p @ b" using Cons.IH by auto
      then have "c # cs = (c # a) @ p @ b" by simp
      then show ?thesis by blast
    qed
  next
    assume "\<exists>a b. c # cs = a @ p @ b"
    then obtain a b where ab: "c # cs = a @ p @ b" by auto
    show "includesStr (c # cs) p"
    proof (cases a)
      case Nil
      then have "startsWith (c # cs) p" using ab by (auto simp: startsWith_iff)
      then show ?thesis by simp
    next
      case (Cons x a')
      then have "cs = a' @ p @ b" using ab by simp
      then have "includesStr cs p" using Cons.IH by auto
      then show ?thesis by simp
    qed
  qed
qed

lemma includesStr_longer: "includesStr s (x @ p) \<Longrightarrow> includesStr s p"
proof -
  assume "includesStr s (x @ p)"
  then obtain a b where "s = a @ (x @ p) @ b" by (auto simp: includesStr_iff)
  then have "s = (a @ x) @ p @ b" by simp
  then show ?thesis unfolding includesStr_iff by blast
qed

lemma upperChar_idem: "upperChar (upperChar c) = upperChar c"
  unfolding upperChar_def by (simp split: option.splits if_splits)

lemma toUpperCase_idem: "toUpperCase (toUpperCase s) = toUpperCase s"
  by (simp add: toUpperCase_def upperChar_idem)

lemma hasPPPInName_upper: "hasPPPInName (toUpperCase s) = hasPPPInName s"
  by (simp add: hasPPPInName_def toUpperCase_idem)

lemma hasPPP_eq: "hasPPP t = hasPPPInName t"
  by (cases t) (simp_all add: hasPPP_def hasPPPInName_def toUpperCase_def matchYrPPPAt_def)

lemma ten_year_contains_zero_year:
  "includesStr u ''10 YR PPP'' \<Longrightarrow> includesStr u ''0 YR PPP''"
  using includesStr_longer[of u "''1''" "''0 YR PPP''"] by simp

lemma exempt_not_penalty:
  assumes "includesStr (toUpperCase t) ''0MO PPP'' \<or> includesStr (toUpperCase t) ''0 YR PPP'' \<or>
           includesStr (toUpperCase t) ''0YR PPP''"
  shows "\<not> hasPPPInName t"
  using assms by (simp add: hasPPPInName_def)

lemma includesStr_nonempty: "includesStr s (c # p) \<Longrightarrow> s \<noteq> []"
  by (cases s) auto


section \<open>What the filters let through\<close>

lemma handlerFilterStep_kept:
  assumes "handlerFilterStep p = (True, q)"
  shows "q = p\<lparr>prog_rateOptions :=
                 filter (\<lambda>ro. \<not> hasPPP (opt_description ro)) (prog_rateOptions p)\<rparr> \<and>
         \<not> hasPPP (prog_programName p) \<and> \<not> hasPPP (prog_name p) \<and>
         \<not> hasPPP (prog_description p) \<and> prog_rateOptions q \<noteq> []"
  using assms by (auto simp: handlerFilterStep_def Let_def split: if_splits)

lemma set_kept:
  "set (map snd (filter fst (map f xs))) = {q. \<exists>x\<in>set xs. f x = (True, q)}"
  by (induction xs) (auto simp: prod_eq_iff)

lemma handlerFilter_member:
  "q \<in> set (fst (handlerFilter False programs)) \<longleftrightarrow>
   (\<exists>p\<in>set programs. prog_status p = ''Eligible'' \<and> handlerFilterStep p = (True, q))"
proof -
  have step: "((if prog_status p = ''Eligible'' then handlerFilterStep p else (False, p)) = (True, q))
        \<longleftrightarrow> (prog_status p = ''Eligible'' \<and> handlerFilterStep p = (True, q))" for p
    by simp
  have "fst (handlerFilter False programs) =
        map snd (filter fst (map (\<lambda>p. if prog_status p = ''Eligible'' then handlerFilterStep p
                                       else (False, p)) programs))"
    by (simp add: handlerFilter_def Let_def)
  then show ?thesis
    by (simp only: set_kept mem_Collect_eq step)
qed

lemma occupancyFilterStep_kept:
  assumes "occupancyFilterStep p = (True, q)"
  shows "q = p\<lparr>prog_rateOptions :=
                 filter (\<lambda>opt. \<not> hasPPPInName (opt_description opt)) (prog_rateOptions p)\<rparr> \<and>
         \<not> hasPPPInName (prog_name p) \<and> prog_rateOptions q \<noteq> []"
  using assms by (auto simp: occupancyFilterStep_def orElse_def Let_def split: if_splits)

lemma filterProgramsByOccupancy_member:
  assumes "occupancyType \<noteq> ''investment''"
  shows "q \<in> set (filterProgramsByOccupancy programs occupancyType) \<longleftrightarrow>
         (\<exists>p\<in>set programs. occupancyFilterStep p = (True, q))"
proof -
  have "filterProgramsByOccupancy programs occupancyType =
        map snd (filter fst (map occupancyFilterStep programs))"
    using assms by (simp add: filterProgramsByOccupancy_def)
  then show ?thesis
    by (simp only: set_kept mem_Collect_eq)
qed

text \<open>
  Claim C2.  When the occupancy type is not \<open>investment\<close>, every program that the
  handler's filter returns has the status \<open>Eligible\<close>, a name and a description that
  are not penalty-bearing, only rate options whose description is not penalty-bearing,
  and at least one rate option.  The pricing logic's \<open>filterProgramsByOccupancy\<close>
  guarantees the same of names and rate options.  The input list is arbitrary, so its
  order does not matter.
\<close>

theorem filter_output_free_of_penalties:
  assumes "occupancyType \<noteq> ''investment''"
  shows "(\<forall>q\<in>set (fst (handlerFilter (occupancyType = ''investment'') programs)).
            prog_status q = ''Eligible'' \<and>
            \<not> hasPPPInName (prog_name q) \<and> \<not> hasPPPInName (prog_programName q) \<and>
            \<not> hasPPPInName (prog_description q) \<and>
            (\<forall>ro\<in>set (prog_rateOptions q). \<not> hasPPPInName (opt_description ro)) \<and>
            prog_rateOptions q \<noteq> []) \<and>
         (\<forall>q\<in>set (filterProgramsByOccupancy programs occupancyType).
            \<not> hasPPPInName (prog_name q) \<and>
            (\<forall>opt\<in>set (prog_rateOptions q). \<not> hasPPPInName (opt_description opt)) \<and>
            prog_rateOptions q \<noteq> [])"
proof -
  have handler: "prog_status q = ''Eligible'' \<and>
        \<not> hasPPPInName (prog_name q) \<and> \<not> hasPPPInName (prog_programName q) \<and>
        \<not> hasPPPInName (prog_description q) \<and>
        (\<forall>ro\<in>set (prog_rateOptions q). \<not> hasPPPInName (opt_description ro)) \<and>
        prog_rateOptions q \<noteq> []"
    if "q \<in> set (fst (handlerFilter (occupancyType = ''investment'') programs))" for q
  proof -
    from that assms obtain p where p: "p \<in> set programs" "prog_status p = ''Eligible''"
        "handlerFilterStep p = (True, q)"
      by (auto simp: handlerFilter_member)
    from handlerFilterStep_kept[OF p(3)] p(2) show ?thesis
      by (auto simp: hasPPP_eq)
  qed
  have logic: "\<not> hasPPPInName (prog_name q) \<and>
        (\<forall>opt\<in>set (prog_rateOptions q). \<not> hasPPPInName (opt_description opt)) \<and>
        prog_rateOptions q \<noteq> []"
    if "q \<in> set (filterProgramsByOccupancy programs occupancyType)" for q
  proof -
    from that assms obtain p where p: "p \<in> set programs" "occupancyFilterStep p = (True, q)"
      by (auto simp: filterProgramsByOccupancy_member)
    from occupancyFilterStep_kept[OF p(2)] show ?thesis
      by auto
  qed
  from handler logic show ?thesis by blast
qed


text \<open>The filters on the mixed programs, for a primary residence.\<close>

theorem filter_mixed_programs:
  "''primary'' \<noteq> ''investment'' \<and>
   list_all (\<lambda>q. prog_status q = ''Eligible'' \<and>
                 \<not> hasPPPInName (prog_name q) \<and> \<not> hasPPPInName (prog_programName q) \<and>
                 \<not> hasPPPInName (prog_description q) \<and>
                 list_all (\<lambda>ro. \<not> hasPPPInName (opt_description ro)) (prog_rateOptions q) \<and>
                 prog_rateOptions q \<noteq> [])
     (fst (handlerFilter (''primary'' = ''investment'') mixedPrograms)) \<and>
   list_all (\<lambda>q. \<not> hasPPPInName (prog_name q) \<and>
                 list_all (\<lambda>opt. \<not> hasPPPInName (opt_description opt)) (prog_rateOptions q) \<and>
                 prog_rateOptions q \<noteq> [])
     (filterProgramsByOccupancy mixedPrograms ''primary'') \<and>
   map prog_name (fst (handlerFilter (''primary'' = ''investment'') mixedPrograms)) = [''Select 30yr''] \<and>
   map (map opt_description \<circ> prog_rateOptions)
     (fst (handlerFilter (''primary'' = ''investment'') mixedPrograms)) =
     [[''0 YR PPP 30yr Fixed'', ''10 YR PPP 30yr Fixed'']]"
proof -
  have h: "''primary'' \<noteq> ''investment''" by simp
  have names: "map prog_name (fst (handlerFilter (''primary'' = ''investment'') mixedPrograms)) =
      [''Select 30yr'']"
    by code_simp
  have descs: "map (map opt_description \<circ> prog_rateOptions)
     (fst (handlerFilter (''primary'' = ''investment'') mixedPrograms)) =
     [[''0 YR PPP 30yr Fixed'', ''10 YR PPP 30yr Fixed'']]"
    by code_simp
  from filter_output_free_of_penalties[OF h, of mixedPrograms] names descs
  show ?thesis
    by (simp add: list_all_iff)
qed

text \<open>
  Every rate option of a list that the handler's filter returns passes the selector's own
  penalty test, so the selector's result on a filtered list is the first closest option.
\<close>

lemma filtered_options_pass_selector_test:
  assumes "q \<in> set (fst (handlerFilter False programs))" "opt \<in> set (prog_rateOptions q)"
  shows "\<not> optionHasPPP (programLabel q) opt"
proof -
  from assms(1) obtain p where p: "handlerFilterStep p = (True, q)"
    by (auto simp: handlerFilter_member)
  from handlerFilterStep_kept[OF p] assms(2)
  have d: "\<not> hasPPPInName (opt_description opt)" and n: "\<not> hasPPPInName (prog_name q)"
    by (auto simp: hasPPP_eq)
  have u: "\<not> hasPPPInName ''Unknown''"
    by (simp add: hasPPPInName_def toUpperCase_def upperChar_def matchYrPPPAt_def isDigit_def)
  from d n u show ?thesis
    by (simp add: optionHasPPP_def programLabel_def orElse_def hasPPPInName_upper)
qed

section \<open>The zero-period exemption\<close>

lemma distanceToPar_toTarget:
  "distanceToPar (toTarget n opt) = \<bar>(100 - opt_points opt) - 100\<bar>"
  by (simp add: distanceToPar_def toTarget_def safeNumber_def)

lemma toTarget_in_scanTargets:
  assumes "p \<in> set programs" "opt \<in> set (prog_rateOptions p)" "keep (programLabel p) opt"
          "inBand opt"
  shows "toTarget (programLabel p) opt \<in> set (scanTargets keep programs)"
  using assms unfolding scanTargets_def by auto

lemma firstClosest_bound:
  assumes "firstClosestToPar cs r" "c \<in> set cs"
  shows "\<exists>t. r = Some t \<and> distanceToPar t \<le> distanceToPar c"
proof (cases r)
  case None
  with assms show ?thesis by (simp add: firstClosestToPar_def)
next
  case (Some t)
  from assms(2) obtain j where "j < length cs" "cs ! j = c"
    by (auto simp: in_set_conv_nth)
  with assms(1) Some show ?thesis
    by (auto simp: firstClosestToPar_def)
qed

lemma selector_reaches_unexcluded:
  assumes "occupancyType \<noteq> ''investment''" "p \<in> set programs"
          "opt \<in> set (prog_rateOptions p)" "\<not> optionHasPPP (programLabel p) opt" "inBand opt"
  shows "\<exists>t. getTargetPricing programs occupancyType prepayPeriod = Some t \<and>
             distanceToPar t \<le> \<bar>(100 - opt_points opt) - 100\<bar>"
proof -
  let ?cs = "scanTargets (\<lambda>n opt. \<not> optionHasPPP n opt) programs"
  have "toTarget (programLabel p) opt \<in> set ?cs"
    using assms(2-5) by (intro toTarget_in_scanTargets) auto
  from firstClosest_bound[OF fold_stepCloser_firstClosest this]
  show ?thesis
    by (simp add: getTargetPricing_nonInvestment[OF assms(1)] distanceToPar_toTarget)
qed

lemma ten_year_not_penalty:
  assumes "includesStr (toUpperCase t) ''10 YR PPP''"
  shows "\<not> hasPPPInName t"
  using ten_year_contains_zero_year[OF assms] by (simp add: hasPPPInName_def)

lemma ten_year_option_not_excluded:
  assumes "includesStr (toUpperCase (opt_description opt)) ''10 YR PPP''"
  shows "\<not> optionHasPPP n opt"
proof -
  have "toUpperCase (opt_description opt) \<noteq> []"
    using assms by (rule includesStr_nonempty)
  then have "opt_description opt \<noteq> []" by (auto simp: toUpperCase_def)
  then show ?thesis
    using ten_year_not_penalty[OF assms]
    by (simp add: optionHasPPP_def orElse_def hasPPPInName_upper)
qed


text \<open>
  Claim C4.  A text that contains \<open>0MO PPP\<close>, \<open>0 YR PPP\<close> or \<open>0YR PPP\<close> in any
  letter case is classified not penalty-bearing, whatever else it contains; so is every
  text that contains \<open>10 YR PPP\<close>.  For a scenario that is not an investment, a rate
  option with such a description is not excluded by the selector, stays in its program
  through both filters unless the program itself is dropped, and when it is in the band
  the selector returns a target at least as close to 100.
\<close>

theorem zero_period_exemption_first:
  "(includesStr (toUpperCase t) ''0MO PPP'' \<or> includesStr (toUpperCase t) ''0 YR PPP'' \<or>
    includesStr (toUpperCase t) ''0YR PPP'' \<or> includesStr (toUpperCase t) ''10 YR PPP''
      \<longrightarrow> \<not> hasPPPInName t \<and> \<not> hasPPP t) \<and>
   (includesStr (toUpperCase (opt_description opt)) ''10 YR PPP'' \<and>
    occupancyType \<noteq> ''investment'' \<and> p \<in> set programs \<and> opt \<in> set (prog_rateOptions p)
      \<longrightarrow>
        \<not> optionHasPPP (programLabel p) opt \<and>
        (prog_status p = ''Eligible'' \<and> \<not> hasPPP (prog_programName p) \<and>
         \<not> hasPPP (prog_name p) \<and> \<not> hasPPP (prog_description p)
           \<longrightarrow> (\<exists>q\<in>set (fst (handlerFilter (occupancyType = ''investment'') programs)).
                  opt \<in> set (prog_rateOptions q))) \<and>
        (\<not> hasPPPInName (prog_name p)
           \<longrightarrow> (\<exists>q\<in>set (filterProgramsByOccupancy programs occupancyType).
                  opt \<in> set (prog_rateOptions q))) \<and>
        (inBand opt
           \<longrightarrow> (\<exists>t'. getTargetPricing programs occupancyType prepayPeriod = Some t' \<and>
                     distanceToPar t' \<le> \<bar>(100 - opt_points opt) - 100\<bar>)))"
proof (intro conjI impI)
  assume "includesStr (toUpperCase t) ''0MO PPP'' \<or> includesStr (toUpperCase t) ''0 YR PPP'' \<or>
    includesStr (toUpperCase t) ''0YR PPP'' \<or> includesStr (toUpperCase t) ''10 YR PPP''"
  then have "\<not> hasPPPInName t"
    using exempt_not_penalty[of t] ten_year_not_penalty[of t] by blast
  then show "\<not> hasPPPInName t" "\<not> hasPPP t"
    by (simp_all add: hasPPP_eq)
next
  assume a: "includesStr (toUpperCase (opt_description opt)) ''10 YR PPP'' \<and>
    occupancyType \<noteq> ''investment'' \<and> p \<in> set programs \<and> opt \<in> set (prog_rateOptions p)"
  then have ten: "includesStr (toUpperCase (opt_description opt)) ''10 YR PPP''"
    and occ: "occupancyType \<noteq> ''investment''"
    and p: "p \<in> set programs" and opt: "opt \<in> set (prog_rateOptions p)"
    by simp_all
  have np: "\<not> hasPPPInName (opt_description opt)"
    using ten by (rule ten_year_not_penalty)
  show nx: "\<not> optionHasPPP (programLabel p) opt"
    using ten by (rule ten_year_option_not_excluded)
  {
    assume e: "prog_status p = ''Eligible'' \<and> \<not> hasPPP (prog_programName p) \<and>
         \<not> hasPPP (prog_name p) \<and> \<not> hasPPP (prog_description p)"
    let ?q = "p\<lparr>prog_rateOptions :=
                 filter (\<lambda>ro. \<not> hasPPP (opt_description ro)) (prog_rateOptions p)\<rparr>"
    have mem: "opt \<in> set (prog_rateOptions ?q)"
      using opt np by (simp add: hasPPP_eq)
    then have "prog_rateOptions ?q \<noteq> []" by (metis empty_iff list.set(1))
    then have "handlerFilterStep p = (True, ?q)"
      using e by (simp add: handlerFilterStep_def Let_def)
    then have "?q \<in> set (fst (handlerFilter False programs))"
      using p e unfolding handlerFilter_member by blast
    then have inq: "?q \<in> set (fst (handlerFilter (occupancyType = ''investment'') programs))"
      using occ by simp
    from mem inq
    show "\<exists>q\<in>set (fst (handlerFilter (occupancyType = ''investment'') programs)).
                  opt \<in> set (prog_rateOptions q)"
      by (rule bexI)
  }
  {
    assume e: "\<not> hasPPPInName (prog_name p)"
    let ?q = "p\<lparr>prog_rateOptions :=
                 filter (\<lambda>opt. \<not> hasPPPInName (orElse (opt_description opt) []))
                   (prog_rateOptions p)\<rparr>"
    have mem: "opt \<in> set (prog_rateOptions ?q)"
      using opt np by (simp add: orElse_def)
    then have "prog_rateOptions ?q \<noteq> []" by (metis empty_iff list.set(1))
    then have "occupancyFilterStep p = (True, ?q)"
      using e by (simp add: occupancyFilterStep_def Let_def orElse_def)
    then have inq: "?q \<in> set (filterProgramsByOccupancy programs occupancyType)"
      using p unfolding filterProgramsByOccupancy_member[OF occ] by blast
    from mem inq
    show "\<exists>q\<in>set (filterProgramsByOccupancy programs occupancyType).
                  opt \<in> set (prog_rateOptions q)"
      by (rule bexI)
  }
  {
    assume "inBand opt"
    then show "\<exists>t'. getTargetPricing programs occupancyType prepayPeriod = Some t' \<and>
                     distanceToPar t' \<le> \<bar>(100 - opt_points opt) - 100\<bar>"
      using selector_reaches_unexcluded[OF occ p opt nx] by simp
  }
qed


text \<open>
  A description with a ten-year penalty carries the marker \<open> PPP\<close> and still passes:
  the option survives both filters and is the selected target.
\<close>

theorem ten_year_option_passes:
  "includesStr (toUpperCase (opt_description tenYearOption)) ''10 YR PPP'' \<and>
   includesStr (toUpperCase (opt_description tenYearOption)) '' PPP'' \<and>
   \<not> hasPPPInName (opt_description tenYearOption) \<and>
   \<not> hasPPP (opt_description tenYearOption) \<and>
   (\<exists>q\<in>set (fst (handlerFilter (''primary'' = ''investment'') mixedPrograms)).
      tenYearOption \<in> set (prog_rateOptions q)) \<and>
   (\<exists>q\<in>set (filterProgramsByOccupancy mixedPrograms ''primary'').
      tenYearOption \<in> set (prog_rateOptions q)) \<and>
   getTargetPricing (fst (handlerFilter (''primary'' = ''investment'') mixedPrograms))
       ''primary'' ''3year'' =
     Some (toTarget ''Select 30yr'' tenYearOption)"
proof -
  let ?p = "sampleProgram ''Select 30yr'' ''Eligible'' (13 / 2)
        [sampleOption ''0 YR PPP 30yr Fixed'' (1 / 4),
         sampleOption ''2 YR PPP 30yr Fixed'' 0,
         sampleOption ''10 YR PPP 30yr Fixed'' (- 1 / 8)]"
  have ten: "includesStr (toUpperCase (opt_description tenYearOption)) ''10 YR PPP''"
    by code_simp
  have marker: "includesStr (toUpperCase (opt_description tenYearOption)) '' PPP''"
    by code_simp
  have p: "?p \<in> set mixedPrograms"
    by (simp add: mixedPrograms_def)
  have opt: "tenYearOption \<in> set (prog_rateOptions ?p)"
    by (simp add: sampleProgram_def tenYearOption_def)
  have occ: "''primary'' \<noteq> ''investment''"
    by simp
  have ok: "prog_status ?p = ''Eligible'' \<and> \<not> hasPPP (prog_programName ?p) \<and>
         \<not> hasPPP (prog_name ?p) \<and> \<not> hasPPP (prog_description ?p)"
    by code_simp
  have okName: "\<not> hasPPPInName (prog_name ?p)"
    by code_simp
  have sel: "getTargetPricing (fst (handlerFilter (''primary'' = ''investment'') mixedPrograms))
       ''primary'' ''3year'' = Some (toTarget ''Select 30yr'' tenYearOption)"
    by code_simp
  from zero_period_exemption_first[of "opt_description tenYearOption" tenYearOption
      "''primary''" ?p mixedPrograms "''3year''"] ten marker p opt occ ok okName sel
  show ?thesis by simp
qed

section \<open>Sanitizing and rewriting adjustments\<close>

lemma toFixed3_1312: "toFixed3 (1312 / 1000) = ''1.312''"
  by code_simp

lemma replaceDSCR_tier:
  "replaceDSCR ''DSCR: DSCR >= 1.25'' ''DSCR: 1.312 (>=1.250)'' = ''DSCR: 1.312 (>=1.250)''"
  by code_simp

lemma tier_description_upper:
  "includesStr (toUpperCase ''DSCR: DSCR >= 1.25'') ''DSCR''"
  "\<not> includesStr (toUpperCase ''DSCR: DSCR >= 1.25'') ''CASHOUT''"
  by code_simp+

text \<open>
  Claim C5.  In a DSCR request with the computed ratio 1.312 and the tier \<open>>=1.250\<close>,
  an adjustment described as \<open>DSCR: DSCR >= 1.25\<close> is kept and its description
  becomes \<open>DSCR: 1.312 (>=1.250)\<close>; the amount and the rate adjustment stay as they
  are.
\<close>

theorem dscr_description_rewritten:
  assumes "isDSCRRequest formData"
      and "fd_dscrValue formData = Some (1312 / 1000)"
      and "fd_dscrRatio formData = ''>=1.250''"
      and "adj_description adj = ''DSCR: DSCR >= 1.25''"
  shows "keepAdjustment formData adj \<and>
         rewriteAdjustment formData adj = adj\<lparr>adj_description := ''DSCR: 1.312 (>=1.250)''\<rparr> \<and>
         adj_amount (rewriteAdjustment formData adj) = adj_amount adj \<and>
         adj_rateAdj (rewriteAdjustment formData adj) = adj_rateAdj adj \<and>
         sanitizeAdjustments formData [adj] = [adj\<lparr>adj_description := ''DSCR: 1.312 (>=1.250)''\<rparr>]"
proof -
  have keep: "keepAdjustment formData adj"
    using assms(1,4) tier_description_upper(2)
    by (simp add: keepAdjustment_def orElse_def Let_def)
  have "toFixed3 (164 / 125) = ''1.312''"
    using toFixed3_1312 by simp
  then have v: "actualDSCRValue formData = Some ''1.312''"
    using assms(1,2) by (simp add: actualDSCRValue_def)
  have t: "actualDSCRTier formData = Some ''>=1.250''"
    using assms(1,3) by (simp add: actualDSCRTier_def)
  have rw: "rewriteAdjustment formData adj = adj\<lparr>adj_description := ''DSCR: 1.312 (>=1.250)''\<rparr>"
    using assms(1,4) tier_description_upper(1) replaceDSCR_tier
    by (simp add: rewriteAdjustment_def v t orElse_def)
  show ?thesis
    using keep rw by (simp add: sanitizeAdjustments_def)
qed

text \<open>The rewrite on the sample request.\<close>

theorem dscr_description_rewritten_example:
  "isDSCRRequest dscrForm \<and>
   fd_dscrValue dscrForm = Some (1312 / 1000) \<and>
   fd_dscrRatio dscrForm = ''>=1.250'' \<and>
   adj_description dscrTierAdjustment = ''DSCR: DSCR >= 1.25'' \<and>
   sanitizeAdjustments dscrForm [dscrTierAdjustment] =
     [\<lparr> adj_description = ''DSCR: 1.312 (>=1.250)'', adj_amount = - 1 / 2, adj_rateAdj = 1 / 8 \<rparr>]"
proof -
  have h1: "isDSCRRequest dscrForm" by code_simp
  have h2: "fd_dscrValue dscrForm = Some (1312 / 1000)" by (simp add: dscrForm_def)
  have h3: "fd_dscrRatio dscrForm = ''>=1.250''" by (simp add: dscrForm_def)
  have h4: "adj_description dscrTierAdjustment = ''DSCR: DSCR >= 1.25''"
    by (simp add: dscrTierAdjustment_def)
  from dscr_description_rewritten[OF h1 h2 h3 h4] h1 h2 h3 h4
  show ?thesis by (simp add: dscrTierAdjustment_def)
qed

lemma nonDSCR_rewrite_id:
  "\<not> isDSCRRequest formData \<Longrightarrow> rewriteAdjustment formData adj = adj"
  by (simp add: rewriteAdjustment_def actualDSCRValue_def split: option.splits)

lemma nonDSCR_sanitizeAdjustments:
  assumes "\<not> isDSCRRequest formData" "adj \<in> set (sanitizeAdjustments formData adjs)"
  shows "\<not> includesStr (toUpperCase (adj_description adj)) ''DSCR''"
proof -
  have "rewriteAdjustment formData = (\<lambda>a. a)"
    using assms(1) by (intro ext) (rule nonDSCR_rewrite_id)
  then have "sanitizeAdjustments formData adjs = filter (keepAdjustment formData) adjs"
    by (simp add: sanitizeAdjustments_def)
  then have "keepAdjustment formData adj" using assms(2) by simp
  then show ?thesis
    using assms(1) by (auto simp: keepAdjustment_def orElse_def Let_def split: if_splits)
qed

text \<open>
  Claim C6.  When the request is not a DSCR request, the success payload has no
  adjustment whose description contains \<open>DSCR\<close> in any letter case: not in the
  adjustment list of any rate option of any returned program, and not in the global
  adjustments.
\<close>

theorem nonDSCR_no_dscr_adjustments:
  assumes "\<not> isDSCRRequest formData"
      and "res_data (respond formData result) = Some d"
  shows "(\<forall>p\<in>set (data_programs d). \<forall>ro\<in>set (prog_rateOptions p).
            \<forall>adjs. opt_adjustments ro = Some adjs \<longrightarrow>
              (\<forall>adj\<in>set adjs. \<not> includesStr (toUpperCase (adj_description adj)) ''DSCR'')) \<and>
         (\<forall>adjs. data_globalAdjustments d = Some adjs \<longrightarrow>
              (\<forall>adj\<in>set adjs. \<not> includesStr (toUpperCase (adj_description adj)) ''DSCR''))"
proof -
  let ?elig = "map (sanitizeProgram formData)
                 (fst (handlerFilter (fd_occupancyType formData = ''investment'') (pr_programs result)))"
  have progs: "data_programs d = ?elig"
    using assms(2) by (auto simp: respond_def Let_def split: list.splits)
  have glob: "data_globalAdjustments d =
        (case pr_globalAdjustments result of None \<Rightarrow> None
         | Some adjs \<Rightarrow> Some (sanitizeAdjustments formData adjs))"
    using assms(2) by (auto simp: respond_def Let_def split: list.splits)
  have opt: "\<not> includesStr (toUpperCase (adj_description adj)) ''DSCR''"
    if "opt_adjustments (sanitizeRateOption formData ro) = Some adjs" "adj \<in> set adjs"
    for ro adjs adj
  proof (cases "opt_adjustments ro")
    case None
    with that show ?thesis by (simp add: sanitizeRateOption_def)
  next
    case (Some a)
    with that have "adj \<in> set (sanitizeAdjustments formData a)"
      by (auto simp: sanitizeRateOption_def)
    then show ?thesis by (rule nonDSCR_sanitizeAdjustments[OF assms(1)])
  qed
  have part1: "\<forall>p\<in>set (data_programs d). \<forall>ro\<in>set (prog_rateOptions p).
            \<forall>adjs. opt_adjustments ro = Some adjs \<longrightarrow>
              (\<forall>adj\<in>set adjs. \<not> includesStr (toUpperCase (adj_description adj)) ''DSCR'')"
    unfolding progs using opt by (auto simp: sanitizeProgram_def)
  have part2: "\<forall>adjs. data_globalAdjustments d = Some adjs \<longrightarrow>
              (\<forall>adj\<in>set adjs. \<not> includesStr (toUpperCase (adj_description adj)) ''DSCR'')"
    unfolding glob using nonDSCR_sanitizeAdjustments[OF assms(1)]
    by (auto split: option.splits)
  from part1 part2 show ?thesis by (rule conjI)
qed

text \<open>The sample result for the primary residence: only the LTV line is left.\<close>

theorem nonDSCR_example:
  "\<not> isDSCRRequest primaryForm \<and>
   res_data (respond primaryForm adjustedResult) \<noteq> None \<and>
   list_all (\<lambda>p. list_all (\<lambda>ro. case opt_adjustments ro of
                                     None \<Rightarrow> True
                                   | Some adjs \<Rightarrow>
                                       list_all (\<lambda>adj. \<not> includesStr (toUpperCase (adj_description adj)) ''DSCR'')
                                         adjs)
                           (prog_rateOptions p))
     (data_programs (the (res_data (respond primaryForm adjustedResult)))) \<and>
   map (\<lambda>p. map (\<lambda>ro. map_option (map adj_description) (opt_adjustments ro)) (prog_rateOptions p))
     (data_programs (the (res_data (respond primaryForm adjustedResult)))) =
     [[Some [''LTV 75.01-80''], None]] \<and>
   map_option (map adj_description)
     (data_globalAdjustments (the (res_data (respond primaryForm adjustedResult)))) =
     Some [''LTV 75.01-80'']"
proof -
  have h1: "\<not> isDSCRRequest primaryForm" by code_simp
  have some: "res_data (respond primaryForm adjustedResult) \<noteq> None" by code_simp
  then obtain d where d: "res_data (respond primaryForm adjustedResult) = Some d" by blast
  have e1: "map (\<lambda>p. map (\<lambda>ro. map_option (map adj_description) (opt_adjustments ro)) (prog_rateOptions p))
     (data_programs (the (res_data (respond primaryForm adjustedResult)))) =
     [[Some [''LTV 75.01-80''], None]]"
    by code_simp
  have e2: "map_option (map adj_description)
     (data_globalAdjustments (the (res_data (respond primaryForm adjustedResult)))) =
     Some [''LTV 75.01-80'']"
    by code_simp
  from nonDSCR_no_dscr_adjustments[OF h1 d]
  have "list_all (\<lambda>p. list_all (\<lambda>ro. case opt_adjustments ro of
                                     None \<Rightarrow> True
                                   | Some adjs \<Rightarrow>
                                       list_all (\<lambda>adj. \<not> includesStr (toUpperCase (adj_description adj)) ''DSCR'')
                                         adjs)
                           (prog_rateOptions p))
     (data_programs d)"
    by (auto simp: list_all_iff split: option.splits)
  with h1 some e1 e2 d show ?thesis by simp
qed

section \<open>Adjustment items\<close>

lemma parseFloat_half: "parseFloat (replaceFirst ''%'' [] ''0.500%'') = Some (1 / 2)"
  by code_simp

lemma parseFloat_quarter: "parseFloat (replaceFirst ''%'' [] ''-0.250%'') = Some (- 1 / 4)"
  by code_simp

text \<open>
  Where \<open>getAttr\<close> finds the \<open>Point\<close> attribute: when no text \<open>point="\<close>, in any
  letter case, stands before it.
\<close>

lemma startsWith_take:
  assumes "startsWith (toUpperCase (take n s)) pat"
  shows "startsWith (toUpperCase s) pat"
proof -
  from assms obtain r where "toUpperCase (take n s) = pat @ r"
    by (auto simp: startsWith_iff)
  then have "toUpperCase s = pat @ (r @ toUpperCase (drop n s))"
    by (metis append_assoc append_take_drop_id map_append toUpperCase_def)
  then show ?thesis unfolding startsWith_iff by blast
qed

lemma point_pattern: "toUpperCase (''Point'' @ ''='' @ [CHR 0x22]) = ''POINT='' @ [CHR 0x22]"
  by (simp add: toUpperCase_def upperChar_def)

lemma startsWith_append_long:
  "length pat \<le> length a \<Longrightarrow> startsWith (a @ b) pat \<Longrightarrow> startsWith a pat"
  by (induction a pat rule: startsWith.induct) auto

lemma matchAttrAt_point_absent:
  assumes "\<not> startsWith (toUpperCase s) (''POINT='' @ [CHR 0x22])"
  shows "matchAttrAt s ''Point'' = None"
proof -
  have "\<not> startsWith (toUpperCase (take (length ''Point'' + 2) s))
            (toUpperCase (''Point'' @ ''='' @ [CHR 0x22]))"
    unfolding point_pattern using assms startsWith_take by blast
  then show ?thesis
    unfolding matchAttrAt_def by (rule if_not_P)
qed

lemma takeWhile_to_quote:
  "CHR 0x22 \<notin> set v \<Longrightarrow> takeWhile (\<lambda>c. c \<noteq> CHR 0x22) (v @ CHR 0x22 # post) = v"
  by (induction v) auto

lemma matchAttrAt_point_here:
  assumes "CHR 0x22 \<notin> set v"
  shows "matchAttrAt (''Point='' @ dq @ v @ dq @ post) ''Point'' = Some v"
  using takeWhile_to_quote[OF assms, of post]
  by (simp add: matchAttrAt_def dq_def toUpperCase_def upperChar_def)

lemma getAttr_point_found:
  assumes "\<not> includesStr (toUpperCase (pre @ ''Point='')) (''POINT='' @ [CHR 0x22])"
      and "CHR 0x22 \<notin> set v"
  shows "getAttr (pre @ ''Point='' @ dq @ v @ dq @ post) ''Point'' = v"
  using assms(1)
proof (induction pre)
  case Nil
  have "getAttr (CHR ''P'' # (''oint='' @ dq @ v @ dq @ post)) ''Point'' = v"
    using matchAttrAt_point_here[OF assms(2), of post] by simp
  then show ?case by simp
next
  case (Cons c pre)
  let ?tail = "dq @ v @ dq @ post"
  from Cons.prems have here: "\<not> startsWith (toUpperCase (c # pre @ ''Point='')) (''POINT='' @ [CHR 0x22])"
    and later: "\<not> includesStr (toUpperCase (pre @ ''Point='')) (''POINT='' @ [CHR 0x22])"
    by (simp_all add: toUpperCase_def)
  have split: "toUpperCase (c # pre @ ''Point='' @ ?tail) =
        toUpperCase (c # pre @ ''Point='') @ toUpperCase ?tail"
    by (simp add: toUpperCase_def)
  have long: "length (''POINT='' @ [CHR 0x22]) \<le> length (toUpperCase (c # pre @ ''Point=''))"
    by (simp add: toUpperCase_def)
  have "\<not> startsWith (toUpperCase (c # pre @ ''Point='' @ ?tail)) (''POINT='' @ [CHR 0x22])"
    unfolding split using here startsWith_append_long[OF long] by blast
  then have "matchAttrAt (c # pre @ ''Point='' @ ?tail) ''Point'' = None"
    by (rule matchAttrAt_point_absent)
  then have "getAttr ((c # pre) @ ''Point='' @ ?tail) ''Point'' =
        getAttr (pre @ ''Point='' @ ?tail) ''Point''"
    by simp
  with Cons.IH[OF later] show ?case by simp
qed

lemma amount_of_parsed_item:
  assumes "parseAdjustmentItem adjAttrs = Some adj"
  shows "adj_amount adj =
           - orZero (parseFloat (replaceFirst ''%'' [] (orElse (getAttr adjAttrs ''Point'') ''0'')))"
  using assms by (auto simp: parseAdjustmentItem_def Let_def split: if_splits)

text \<open>
  On such an item the amount is the negated point value: \<open>-0.5\<close> for \<open>0.500%\<close> and
  \<open>0.25\<close> for \<open>-0.250%\<close>.
\<close>

lemma point_negated_when_first:
  assumes "\<not> includesStr (toUpperCase (pre @ ''Point='')) (''POINT='' @ [CHR 0x22])"
      and "parseAdjustmentItem (pre @ ''Point='' @ dq @ v @ dq @ post) = Some adj"
  shows "(v = ''0.500%'' \<longrightarrow> adj_amount adj = - 1 / 2) \<and>
         (v = ''-0.250%'' \<longrightarrow> adj_amount adj = 1 / 4)"
proof -
  have half: "adj_amount adj = - 1 / 2" if "v = ''0.500%''"
  proof -
    have "getAttr (pre @ ''Point='' @ dq @ v @ dq @ post) ''Point'' = v"
      using assms(1) that by (intro getAttr_point_found) simp_all
    then show ?thesis
      using amount_of_parsed_item[OF assms(2)] that parseFloat_half
      by (simp add: orElse_def orZero_def)
  qed
  have quarter: "adj_amount adj = 1 / 4" if "v = ''-0.250%''"
  proof -
    have "getAttr (pre @ ''Point='' @ dq @ v @ dq @ post) ''Point'' = v"
      using assms(1) that by (intro getAttr_point_found) simp_all
    then show ?thesis
      using amount_of_parsed_item[OF assms(2)] that parseFloat_quarter
      by (simp add: orElse_def orZero_def)
  qed
  from half quarter show ?thesis by blast
qed

text \<open>Two items as the engine writes them.\<close>

lemma point_attribute_examples:
  "parseAdjustmentItem halfPointItem =
     Some \<lparr> adj_description = ''LTV'', adj_amount = - 1 / 2, adj_rateAdj = 0 \<rparr> \<and>
   parseAdjustmentItem quarterCreditItem =
     Some \<lparr> adj_description = ''FICO'', adj_amount = 1 / 4, adj_rateAdj = 1 / 8 \<rparr>"
  by code_simp

text \<open>
  Claim C7.  An adjustment item whose \<open>Point\<close> attribute is \<open>0.500%\<close> is to yield the
  amount \<open>-0.5\<close>, the negation of the point value; the parser's own comment says so
  (a point of 0.5% means a price adjustment of -0.5).  The parser does not do it on an
  item that has \<open>ParPoint="1.000%"\<close> in front of \<open>Point="0.500%"\<close>: the \<open>Point\<close>
  attribute of the item is \<open>0.500%\<close>, but \<open>getAttr\<close> matches \<open>Point="\<close> inside
  \<open>ParPoint="\<close> first and returns \<open>1.000%\<close>, so the amount is \<open>-1\<close>.
\<close>

theorem point_attribute_shadowed:
  "map_of shadowedPointItem ''Point'' = Some ''0.500%'' \<and>
   renderAttributes shadowedPointItem =
     ''ParPoint='' @ dq @ ''1.000%'' @ dq @ '' Point='' @ dq @ ''0.500%'' @ dq @
     '' Description='' @ dq @ ''LTV'' @ dq \<and>
   getAttr (renderAttributes shadowedPointItem) ''Point'' = ''1.000%'' \<and>
   parseAdjustmentItem (renderAttributes shadowedPointItem) =
     Some \<lparr> adj_description = ''LTV'', adj_amount = - 1, adj_rateAdj = 0 \<rparr> \<and>
   parseAdjustmentBlock (''<AdjustmentItem '' @ renderAttributes shadowedPointItem @ '' />'') =
     [\<lparr> adj_description = ''LTV'', adj_amount = - 1, adj_rateAdj = 0 \<rparr>]"
proof -
  have a: "map_of shadowedPointItem ''Point'' = Some ''0.500%''"
    by (simp add: shadowedPointItem_def)
  have r: "renderAttributes shadowedPointItem =
     ''ParPoint='' @ dq @ ''1.000%'' @ dq @ '' Point='' @ dq @ ''0.500%'' @ dq @
     '' Description='' @ dq @ ''LTV'' @ dq"
    by (simp add: shadowedPointItem_def)
  have g: "getAttr (renderAttributes shadowedPointItem) ''Point'' = ''1.000%''"
    by code_simp
  have p: "parseAdjustmentItem (renderAttributes shadowedPointItem) =
     Some \<lparr> adj_description = ''LTV'', adj_amount = - 1, adj_rateAdj = 0 \<rparr>"
    by code_simp
  have b: "parseAdjustmentBlock (''<AdjustmentItem '' @ renderAttributes shadowedPointItem @ '' />'') =
     [\<lparr> adj_description = ''LTV'', adj_amount = - 1, adj_rateAdj = 0 \<rparr>]"
    by code_simp
  from a r g p b show ?thesis by blast
qed

section \<open>Escaping and unescaping\<close>

lemma encodeChars_Nil: "encodeChars cs [] = []"
  by (simp add: encodeChars_def)

lemma encodeChars_Cons: "encodeChars cs (x # s) = encodeChar cs x @ encodeChars cs s"
  by (simp add: encodeChars_def)

lemma encodeChars_none: "encodeChars [] s = s"
  by (induction s) (simp_all add: encodeChars_def encodeChar_def)

lemma escape_amp: "replaceAll ''&'' ''&amp;'' s = encodeChars ''&'' s"
  by (induction s) (simp_all add: encodeChars_Nil encodeChars_Cons encodeChar_def entityTable_def)

lemma escape_lt: "replaceAll ''<'' ''&lt;'' (encodeChars ''&'' s) = encodeChars ''&<'' s"
  by (induction s) (simp_all add: encodeChars_Nil encodeChars_Cons encodeChar_def entityTable_def)

lemma escape_gt: "replaceAll ''>'' ''&gt;'' (encodeChars ''&<'' s) = encodeChars ''&<>'' s"
  by (induction s) (simp_all add: encodeChars_Nil encodeChars_Cons encodeChar_def entityTable_def)

lemma escape_quot:
  "replaceAll [CHR 0x22] ''&quot;'' (encodeChars ''&<>'' s) = encodeChars [CHR ''&'', CHR ''<'', CHR ''>'', CHR 0x22] s"
  by (induction s) (simp_all add: encodeChars_Nil encodeChars_Cons encodeChar_def entityTable_def)

lemma escape_apos:
  "replaceAll [CHR 0x27] ''&apos;'' (encodeChars [CHR ''&'', CHR ''<'', CHR ''>'', CHR 0x22] s) =
   encodeChars [CHR ''&'', CHR ''<'', CHR ''>'', CHR 0x22, CHR 0x27] s"
  by (induction s) (simp_all add: encodeChars_Nil encodeChars_Cons encodeChar_def entityTable_def)

lemma escapeXml_encode: "escapeXml s = encodeChars [CHR ''&'', CHR ''<'', CHR ''>'', CHR 0x22, CHR 0x27] s"
  by (simp add: escapeXml_def escape_amp escape_lt escape_gt escape_quot escape_apos encodeChars_Nil)

lemma unescape_lt:
  "replaceAll ''&lt;'' ''<'' (encodeChars [CHR ''&'', CHR ''<'', CHR ''>'', CHR 0x22, CHR 0x27] s) =
   encodeChars [CHR ''&'', CHR ''>'', CHR 0x22, CHR 0x27] s"
  by (induction s) (simp_all add: encodeChars_Nil encodeChars_Cons encodeChar_def entityTable_def)

lemma unescape_gt:
  "replaceAll ''&gt;'' ''>'' (encodeChars [CHR ''&'', CHR ''>'', CHR 0x22, CHR 0x27] s) =
   encodeChars [CHR ''&'', CHR 0x22, CHR 0x27] s"
  by (induction s) (simp_all add: encodeChars_Nil encodeChars_Cons encodeChar_def entityTable_def)

lemma unescape_quot:
  "replaceAll ''&quot;'' [CHR 0x22] (encodeChars [CHR ''&'', CHR 0x22, CHR 0x27] s) =
   encodeChars [CHR ''&'', CHR 0x27] s"
  by (induction s) (simp_all add: encodeChars_Nil encodeChars_Cons encodeChar_def entityTable_def)

lemma unescape_apos:
  "replaceAll ''&apos;'' [CHR 0x27] (encodeChars [CHR ''&'', CHR 0x27] s) = encodeChars ''&'' s"
  by (induction s) (simp_all add: encodeChars_Nil encodeChars_Cons encodeChar_def entityTable_def)

lemma unescape_amp:
  "replaceAll ''&amp;'' ''&'' (encodeChars ''&'' s) = s"
  by (induction s) (simp_all add: encodeChars_Nil encodeChars_Cons encodeChar_def entityTable_def)

lemma unescapeXml_escapeXml: "unescapeXml (escapeXml s) = s"
proof (cases "escapeXml s = []")
  case True
  then have "s = []"
    by (cases s)
      (auto simp: escapeXml_encode encodeChars_Cons encodeChar_def entityTable_def
         split: if_splits)
  with True show ?thesis by (simp add: unescapeXml_def)
next
  case False
  then show ?thesis
    by (simp add: unescapeXml_def escapeXml_encode unescape_lt unescape_gt unescape_quot
        unescape_apos unescape_amp)
qed

lemma replaceAll_absent: "\<not> includesStr s pat \<Longrightarrow> replaceAll pat rep s = s"
  by (induction s) auto

lemma unescapeXml_noEntities: "noEntities s \<Longrightarrow> unescapeXml s = s"
  by (simp add: noEntities_def xmlEntities_def unescapeXml_def replaceAll_absent)

text \<open>
  Claim C8.  For every string that contains none of the five entities, escaping it once
  and unescaping the result twice gives the string back.
\<close>

theorem escape_then_unescape_twice:
  assumes "noEntities s"
  shows "unescapeXml (unescapeXml (escapeXml s)) = s"
  using assms by (simp add: unescapeXml_escapeXml unescapeXml_noEntities)

text \<open>
  The round trip on the markup sample; and a string that does contain an entity, which
  the second unescaping changes.
\<close>

theorem escape_then_unescape_twice_example:
  "noEntities markupSample \<and>
   escapeXml markupSample = ''&lt;a href=&quot;x?y=1&amp;z=2&quot;&gt;it&apos;s&lt;/a&gt;'' \<and>
   unescapeXml (unescapeXml (escapeXml markupSample)) = markupSample \<and>
   \<not> noEntities ''1 &lt; 2'' \<and>
   unescapeXml (unescapeXml (escapeXml ''1 &lt; 2'')) = ''1 < 2''"
proof -
  have h: "noEntities markupSample" by code_simp
  have e: "escapeXml markupSample = ''&lt;a href=&quot;x?y=1&amp;z=2&quot;&gt;it&apos;s&lt;/a&gt;''"
    by code_simp
  have n: "\<not> noEntities ''1 &lt; 2''" by code_simp
  have u: "unescapeXml (unescapeXml (escapeXml ''1 &lt; 2'')) = ''1 < 2''" by code_simp
  from escape_then_unescape_twice[OF h] h e n u show ?thesis by blast
qed

section \<open>Program ordering\<close>

lemma compareFn_sortKey: "compareFn a b \<le> 0 \<longleftrightarrow> sortKey a \<le> sortKey b"
  by (simp add: compareFn_def sortKey_def Let_def)

lemma insertSorted_insort_key: "insertSorted compareFn x ys = insort_key sortKey x ys"
  by (induction ys) (simp_all add: compareFn_sortKey)

lemma sortPrograms_sort_key: "sortPrograms ps = sort_key sortKey ps"
  by (induction ps) (simp_all add: sortPrograms_def sortBy_def insertSorted_insort_key)

lemma sortKey_comesBefore: "sortKey a \<le> sortKey b \<Longrightarrow> comesBefore a b"
  by (auto simp: sortKey_def comesBefore_def split: if_splits)

text \<open>
  Claim C9.  The sorted list has the programs of the input, eligible programs before all
  others and ascending rates inside each eligibility class; programs with the same
  eligibility class and rate keep their order.
\<close>

theorem programs_sorted_eligible_then_rate:
  "mset (sortPrograms ps) = mset ps \<and>
   sorted_wrt comesBefore (sortPrograms ps) \<and>
   (\<forall>k. filter (\<lambda>p. sortKey p = k) (sortPrograms ps) = filter (\<lambda>p. sortKey p = k) ps)"
proof -
  have "sorted (map sortKey (sort_key sortKey ps))"
    by (rule sorted_sort_key)
  then have "sorted_wrt (\<lambda>a b. sortKey a \<le> sortKey b) (sort_key sortKey ps)"
    by (simp add: sorted_map)
  then have "sorted_wrt comesBefore (sort_key sortKey ps)"
    by (rule sorted_wrt_mono_rel[rotated]) (rule sortKey_comesBefore)
  then show ?thesis
    by (simp add: sortPrograms_sort_key sort_key_stable)
qed

text \<open>
  The three programs come out as the eligible one with rate 4, the eligible one with
  rate 5, then the one that is not eligible.
\<close>

theorem three_programs_sorted:
  "sortPrograms threePrograms =
     [sampleProgram ''Third'' ''Eligible'' 4 [sampleOption ''30yr Fixed'' 0],
      sampleProgram ''Second'' ''Eligible'' 5 [sampleOption ''30yr Fixed'' 0],
      sampleProgram ''First'' ''Ineligible'' 3 [sampleOption ''30yr Fixed'' 0]] \<and>
   map prog_status (sortPrograms threePrograms) = [''Eligible'', ''Eligible'', ''Ineligible''] \<and>
   map prog_rate (sortPrograms threePrograms) = [4, 5, 3] \<and>
   mset (sortPrograms threePrograms) = mset threePrograms \<and>
   sorted_wrt comesBefore (sortPrograms threePrograms)"
proof -
  have e: "sortPrograms threePrograms =
     [sampleProgram ''Third'' ''Eligible'' 4 [sampleOption ''30yr Fixed'' 0],
      sampleProgram ''Second'' ''Eligible'' 5 [sampleOption ''30yr Fixed'' 0],
      sampleProgram ''First'' ''Ineligible'' 3 [sampleOption ''30yr Fixed'' 0]]"
    by (simp add: sortPrograms_def sortBy_def threePrograms_def compareFn_def sampleProgram_def)
  have s: "map prog_status (sortPrograms threePrograms) = [''Eligible'', ''Eligible'', ''Ineligible'']"
    unfolding e by (simp add: sampleProgram_def)
  have r: "map prog_rate (sortPrograms threePrograms) = [4, 5, 3]"
    unfolding e by (simp add: sampleProgram_def)
  from programs_sorted_eligible_then_rate[of threePrograms] e s r
  show ?thesis by simp
qed

section \<open>The answer when no program is left\<close>

lemma findFirst_member: "findFirst pred xs = Some x \<Longrightarrow> x \<in> set xs"
  by (induction xs) (auto split: if_splits)

lemma bestOption_member: "bestOption ros = Some best \<Longrightarrow> best \<in> set ros"
  by (auto simp: bestOption_def split: option.splits list.splits dest: findFirst_member)

lemma buildProgram_representativeDescribed:
  "buildProgram attrs ros adjs = Some p \<Longrightarrow> representativeDescribed p"
  by (auto simp: buildProgram_def representativeDescribed_def split: option.splits if_splits)

lemma handlerFilterStep_dropped:
  assumes "representativeDescribed p" "handlerFilterStep p = (False, q)"
  shows "q = p"
proof (cases "hasPPP (prog_programName p) \<or> hasPPP (prog_name p) \<or> hasPPP (prog_description p)")
  case True
  with assms(2) show ?thesis by (auto simp: handlerFilterStep_def split: if_splits)
next
  case False
  from assms(1) obtain best where best: "bestOption (prog_rateOptions p) = Some best"
      "prog_description p = opt_description best"
    by (auto simp: representativeDescribed_def split: option.splits)
  then have "best \<in> set (filter (\<lambda>ro. \<not> hasPPP (opt_description ro)) (prog_rateOptions p))"
    using False bestOption_member[OF best(1)] by simp
  then have "filter (\<lambda>ro. \<not> hasPPP (opt_description ro)) (prog_rateOptions p) \<noteq> []"
    by (metis empty_iff list.set(1))
  with False assms(2) show ?thesis
    by (simp add: handlerFilterStep_def Let_def)
qed

lemma map_snd_unchanged:
  assumes "filter fst (map f xs) = []" "\<And>x q. x \<in> set xs \<Longrightarrow> f x = (False, q) \<Longrightarrow> q = x"
  shows "map snd (map f xs) = xs"
  using assms
proof (induction xs)
  case Nil
  then show ?case by simp
next
  case (Cons x xs)
  from Cons.prems(1) have nf: "\<not> fst (f x)" and rest: "filter fst (map f xs) = []"
    by (auto split: if_splits)
  from nf have "f x = (False, snd (f x))" by (simp add: prod_eq_iff)
  then have "snd (f x) = x" using Cons.prems(2)[of x "snd (f x)"] by simp
  moreover have "map snd (map f xs) = xs"
    using rest Cons.prems(2) by (intro Cons.IH) auto
  ultimately show ?case by simp
qed

lemma handlerFilter_empty_unchanged:
  assumes "\<forall>p\<in>set programs. representativeDescribed p"
      and "fst (handlerFilter isInvestment programs) = []"
  shows "snd (handlerFilter isInvestment programs) = programs"
proof (cases isInvestment)
  case True
  then show ?thesis by (simp add: handlerFilter_def)
next
  case False
  let ?f = "\<lambda>p. if prog_status p = ''Eligible'' then handlerFilterStep p else (False, p)"
  have "filter fst (map ?f programs) = []"
    using assms(2) False by (simp add: handlerFilter_def Let_def)
  moreover have "q = p" if "p \<in> set programs" "?f p = (False, q)" for p q
    using that assms(1) handlerFilterStep_dropped[of p q] by (auto split: if_splits)
  ultimately have "map snd (map ?f programs) = programs"
    by (rule map_snd_unchanged)
  then show ?thesis using False by (simp add: handlerFilter_def Let_def)
qed

text \<open>
  Claim C10, as the handler has it.  When the filter leaves no program of a parsed
  result, the answer has HTTP status 200, \<open>success: false\<close> and the message
  \<open>No programs found. Please adjust your scenario.\<close> in its \<open>error\<close> key; it
  differs from every failure answer by the \<open>allPrograms\<close> and \<open>debug\<close> keys it
  carries, and \<open>allPrograms\<close> summarises every program of the list before the
  filter, in order.
\<close>

theorem no_programs_outcome:
  assumes "\<forall>p\<in>set (pr_programs result). representativeDescribed p"
      and "fst (handlerFilter (fd_occupancyType formData = ''investment'') (pr_programs result)) = []"
  shows "respond formData result =
           \<lparr> res_httpStatus = 200, res_success = False,
             res_error = Some noProgramsMessage,
             res_allPrograms = Some (map programSummary (pr_programs result)),
             res_debug = Some \<lparr> dbg_isInvestment = (fd_occupancyType formData = ''investment''),
                                dbg_occupancyType = fd_occupancyType formData,
                                dbg_eligibleCount =
                                  length (filter (\<lambda>p. prog_status p = ''Eligible'')
                                            (pr_programs result)) \<rparr>,
             res_data = None \<rparr> \<and>
         (\<forall>httpStatus message. respond formData result \<noteq> failureResponse httpStatus message) \<and>
         respond formData result \<noteq> methodNotAllowed \<and>
         (\<forall>status. respond formData result \<noteq> transportFailure status) \<and>
         (\<forall>mlError. respond formData result \<noteq> enginePricingError mlError) \<and>
         (\<forall>message. respond formData result \<noteq> caughtException message)"
proof -
  have same: "snd (handlerFilter (fd_occupancyType formData = ''investment'') (pr_programs result)) =
        pr_programs result"
    using assms by (rule handlerFilter_empty_unchanged)
  have r: "respond formData result =
           \<lparr> res_httpStatus = 200, res_success = False,
             res_error = Some noProgramsMessage,
             res_allPrograms = Some (map programSummary (pr_programs result)),
             res_debug = Some \<lparr> dbg_isInvestment = (fd_occupancyType formData = ''investment''),
                                dbg_occupancyType = fd_occupancyType formData,
                                dbg_eligibleCount =
                                  length (filter (\<lambda>p. prog_status p = ''Eligible'')
                                            (pr_programs result)) \<rparr>,
             res_data = None \<rparr>"
    by (simp add: respond_def Let_def assms(2) same noProgramsMessage_def)
  have d: "respond formData result \<noteq> failureResponse httpStatus message" for httpStatus message
    unfolding r by (simp add: failureResponse_def)
  from r d show ?thesis
    by (simp add: methodNotAllowed_def transportFailure_def enginePricingError_def
        caughtException_def)
qed

text \<open>The answer for the sample result.\<close>

theorem no_programs_example:
  "list_all representativeDescribed (pr_programs penaltyOnlyResult) \<and>
   fst (handlerFilter (fd_occupancyType primaryForm = ''investment'')
          (pr_programs penaltyOnlyResult)) = [] \<and>
   res_httpStatus (respond primaryForm penaltyOnlyResult) = 200 \<and>
   res_allPrograms (respond primaryForm penaltyOnlyResult) =
     Some [\<lparr> sum_programName = ''Investor 30yr'', sum_status = ''Eligible'',
              sum_rateOptionsCount = 2, sum_sampleRateDesc = ''3 YR PPP 30yr Fixed'' \<rparr>,
           \<lparr> sum_programName = ''Prime 30yr'', sum_status = ''Ineligible'',
              sum_rateOptionsCount = 1, sum_sampleRateDesc = ''30yr Fixed'' \<rparr>] \<and>
   respond primaryForm penaltyOnlyResult \<noteq> enginePricingError noProgramsMessage"
proof -
  have wf: "list_all representativeDescribed (pr_programs penaltyOnlyResult)"
    by code_simp
  then have h1: "\<forall>p\<in>set (pr_programs penaltyOnlyResult). representativeDescribed p"
    by (simp add: list_all_iff)
  have h2: "fst (handlerFilter (fd_occupancyType primaryForm = ''investment'')
          (pr_programs penaltyOnlyResult)) = []"
    by code_simp
  have s: "map programSummary (pr_programs penaltyOnlyResult) =
     [\<lparr> sum_programName = ''Investor 30yr'', sum_status = ''Eligible'',
              sum_rateOptionsCount = 2, sum_sampleRateDesc = ''3 YR PPP 30yr Fixed'' \<rparr>,
      \<lparr> sum_programName = ''Prime 30yr'', sum_status = ''Ineligible'',
              sum_rateOptionsCount = 1, sum_sampleRateDesc = ''30yr Fixed'' \<rparr>]"
    by code_simp
  note outcome = no_programs_outcome[OF h1 h2]
  from outcome have a: "res_httpStatus (respond primaryForm penaltyOnlyResult) = 200"
    by simp
  from outcome s have b: "res_allPrograms (respond primaryForm penaltyOnlyResult) =
     Some [\<lparr> sum_programName = ''Investor 30yr'', sum_status = ''Eligible'',
              sum_rateOptionsCount = 2, sum_sampleRateDesc = ''3 YR PPP 30yr Fixed'' \<rparr>,
           \<lparr> sum_programName = ''Prime 30yr'', sum_status = ''Ineligible'',
              sum_rateOptionsCount = 1, sum_sampleRateDesc = ''30yr Fixed'' \<rparr>]"
    by simp
  from outcome have c: "respond primaryForm penaltyOnlyResult \<noteq> enginePricingError noProgramsMessage"
    by blast
  from wf h2 a b c show ?thesis by blast
qed

text \<open>
  The same answer is reported in the shape of an error: \<open>success\<close> is false, the
  message is under \<open>error\<close>, and the form shows it exactly as it shows an error of
  the engine with that text.
\<close>

theorem no_programs_reported_as_error:
  "fst (handlerFilter (fd_occupancyType primaryForm = ''investment'')
          (pr_programs penaltyOnlyResult)) = [] \<and>
   res_success (respond primaryForm penaltyOnlyResult) = False \<and>
   res_error (respond primaryForm penaltyOnlyResult) = Some noProgramsMessage \<and>
   handleSubmitOutcome (respond primaryForm penaltyOnlyResult) = ShowError noProgramsMessage \<and>
   handleSubmitOutcome (enginePricingError noProgramsMessage) = ShowError noProgramsMessage"
  by code_simp

end
